theory Spec2Isabelle
  imports Complex_Main
begin

section \<open>Values stored in the job table\<close>

text \<open>
  The embedding follows \<^verbatim>\<open>src/src/enhanced_quantum_service.py\<close>. Python floats are
  idealised as reals, Python's unbounded integers are \<open>int\<close>, and every read of the
  clock, of the entropy source, of a hash or of a quantum backend is an explicit
  argument of the function that performs it.

  A finished job stores \<^verbatim>\<open>json.dumps(result)\<close> in its \<^verbatim>\<open>result_data\<close> column. The
  serialised text is kept as the dictionary it was made from (\<open>JsonText\<close>).
\<close>

record job_result =
  res_quantum_number :: int
  res_entanglement_data :: "real list"
  res_device_name :: string
  res_device_type :: string
  res_processing_time_ms :: "real option"

datatype sqlval = Null | Text string | Integer int | JsonText job_result

section \<open>AsyncQuantumJobManager: the job table\<close>

text \<open>
  One row of table \<^verbatim>\<open>quantum_jobs\<close>. Column \<^verbatim>\<open>id\<close> is \<open>row_id\<close>; the columns declared
  \<^verbatim>\<open>NOT NULL\<close> hold strings, the nullable ones hold an \<open>sqlval\<close>.
\<close>

record job_row =
  row_id :: nat
  job_id :: string
  signature_id :: sqlval
  device_id :: string
  device_arn :: string
  user_name :: string
  user_message :: string
  status :: string
  created_at :: sqlval
  submitted_at :: sqlval
  completed_at :: sqlval
  result_data :: sqlval
  error_message :: sqlval
  estimated_completion :: sqlval

text \<open>
  The table in insertion order, with the counter behind \<^verbatim>\<open>AUTOINCREMENT\<close>.
\<close>

record jobdb =
  rows :: "job_row list"
  seq :: nat

datatype pyerror =
  KeyError string
  | IndexError
  | IntegrityError string
  | Exception string

text \<open>
  \<^verbatim>\<open>f"qjob_{int(time.time())}_{secrets.token_hex(8)}"\<close>: the clock reading \<open>t\<close> and the
  token \<open>tok\<close> are given by the caller of the model.
\<close>

fun digit_char :: "nat \<Rightarrow> char" where
  "digit_char n = char_of (48 + n)"

fun str_nat :: "nat \<Rightarrow> string" where
  "str_nat n = (if n < 10 then [digit_char n] else str_nat (n div 10) @ [digit_char (n mod 10)])"

declare str_nat.simps [simp del]

definition new_job_id :: "nat \<Rightarrow> string \<Rightarrow> string" where
  "new_job_id t tok = ''qjob_'' @ str_nat t @ ''_'' @ tok"

text \<open>
  \<^verbatim>\<open>create_job\<close>: the \<^verbatim>\<open>INSERT\<close> fails on the \<^verbatim>\<open>UNIQUE\<close> constraint of \<^verbatim>\<open>job_id\<close>; otherwise
  a row in status \<^verbatim>\<open>created\<close> is appended, \<^verbatim>\<open>created_at\<close> taking \<^verbatim>\<open>CURRENT_TIMESTAMP\<close>
  (\<open>now\<close>) and the unlisted columns \<^verbatim>\<open>NULL\<close>.
\<close>

definition create_job ::
  "jobdb \<Rightarrow> nat \<Rightarrow> string \<Rightarrow> string \<Rightarrow> string \<Rightarrow> string \<Rightarrow> string \<Rightarrow> string
     \<Rightarrow> pyerror + (string \<times> jobdb)" where
  "create_job db t tok now dev_id dev_arn uname umessage =
     (let jid = new_job_id t tok in
      if jid \<in> job_id ` set (rows db)
      then Inl (IntegrityError ''UNIQUE constraint failed: quantum_jobs.job_id'')
      else Inr (jid,
        db\<lparr>rows := rows db @
              [\<lparr>row_id = Suc (seq db), job_id = jid, signature_id = Null,
                device_id = dev_id, device_arn = dev_arn, user_name = uname,
                user_message = umessage, status = ''created'', created_at = Text now,
                submitted_at = Null, completed_at = Null, result_data = Null,
                error_message = Null, estimated_completion = Null\<rparr>],
            seq := Suc (seq db)\<rparr>))"

text \<open>
  \<^verbatim>\<open>update_job_status\<close>: the keyword arguments are a dictionary, here the list of its
  items. Only the six recognised keys add a \<^verbatim>\<open>SET\<close> clause; the \<^verbatim>\<open>UPDATE\<close> runs on every
  row \<^verbatim>\<open>WHERE job_id = ?\<close>, whatever the row's status is.
\<close>

definition recognised_fields :: "string list" where
  "recognised_fields =
     [''submitted_at'', ''completed_at'', ''result_data'', ''error_message'',
      ''estimated_completion'', ''signature_id'']"

definition set_column :: "string \<Rightarrow> sqlval \<Rightarrow> job_row \<Rightarrow> job_row" where
  "set_column key v r =
     (if key = ''submitted_at'' then r\<lparr>submitted_at := v\<rparr>
      else if key = ''completed_at'' then r\<lparr>completed_at := v\<rparr>
      else if key = ''result_data'' then r\<lparr>result_data := v\<rparr>
      else if key = ''error_message'' then r\<lparr>error_message := v\<rparr>
      else if key = ''estimated_completion'' then r\<lparr>estimated_completion := v\<rparr>
      else if key = ''signature_id'' then r\<lparr>signature_id := v\<rparr>
      else r)"

definition set_clauses :: "(string \<times> sqlval) list \<Rightarrow> (string \<times> sqlval) list" where
  "set_clauses kwargs = filter (\<lambda>(key, v). key \<in> set recognised_fields) kwargs"

definition run_update :: "string \<Rightarrow> (string \<times> sqlval) list \<Rightarrow> job_row \<Rightarrow> job_row" where
  "run_update st clauses r = fold (\<lambda>(key, v). set_column key v) clauses (r\<lparr>status := st\<rparr>)"

definition update_job_status ::
  "jobdb \<Rightarrow> string \<Rightarrow> string \<Rightarrow> (string \<times> sqlval) list \<Rightarrow> jobdb" where
  "update_job_status db jid st kwargs =
     db\<lparr>rows := map (\<lambda>r. if job_id r = jid then run_update st (set_clauses kwargs) r else r)
                   (rows db)\<rparr>"

definition get_job :: "jobdb \<Rightarrow> string \<Rightarrow> job_row option" where
  "get_job db jid = find (\<lambda>r. job_id r = jid) (rows db)"

text \<open>Reading one of the six recognised columns by its name (used to state the frame).\<close>

definition get_column :: "string \<Rightarrow> job_row \<Rightarrow> sqlval" where
  "get_column key r =
     (if key = ''submitted_at'' then submitted_at r
      else if key = ''completed_at'' then completed_at r
      else if key = ''result_data'' then result_data r
      else if key = ''error_message'' then error_message r
      else if key = ''estimated_completion'' then estimated_completion r
      else if key = ''signature_id'' then signature_id r
      else Null)"

section \<open>QuantumDeviceManager: the device catalogue\<close>

text \<open>
  A device dictionary. The ten keys written by \<^verbatim>\<open>QuantumDeviceManager.__init__\<close> are
  fields (\<^verbatim>\<open>name\<close> and \<^verbatim>\<open>type\<close> are \<open>dev_name\<close> and \<open>dev_type\<close>); the keys \<^verbatim>\<open>status\<close>
  and \<^verbatim>\<open>aws_configured\<close>, which no dictionary has at construction, are optional fields
  (\<open>None\<close>: the key is absent). The catalogue is the dictionary \<^verbatim>\<open>self.devices\<close> in
  insertion order. An empty dictionary \<^verbatim>\<open>{}\<close> returned for an unknown id is \<open>None\<close>.
\<close>

record device =
  dev_name :: string
  dev_type :: string
  arn :: string
  region :: string
  description :: string
  advantages :: "string list"
  typical_runtime :: string
  max_qubits :: int
  supports_bell_states :: bool
  async_required :: bool
  dev_status :: "string option"
  aws_configured :: "bool option"

definition initial_devices :: "(string \<times> device) list" where
  "initial_devices =
   [(''local_simulator'',
     \<lparr>dev_name = ''Local Simulator'', dev_type = ''simulator'', arn = ''local://simulator'',
      region = ''local'', description = ''Fast local quantum circuit simulator'',
      advantages = [''Immediate results'', ''No cost'', ''Always available''],
      typical_runtime = ''< 1 second'', max_qubits = 34, supports_bell_states = True,
      async_required = False, dev_status = None, aws_configured = None\<rparr>),
    (''aws_sv1'',
     \<lparr>dev_name = ''AWS SV1 Simulator'', dev_type = ''managed_simulator'',
      arn = ''arn:aws:braket:::device/quantum-simulator/amazon/sv1'',
      region = ''us-east-1'', description = ''AWS managed state vector quantum simulator'',
      advantages = [''High performance'', ''Up to 34 qubits'', ''Cloud scalability''],
      typical_runtime = ''1-5 seconds'', max_qubits = 34, supports_bell_states = True,
      async_required = True, dev_status = None, aws_configured = None\<rparr>),
    (''ionq_forte'',
     \<lparr>dev_name = ''IonQ Forte Enterprise'', dev_type = ''qpu'',
      arn = ''arn:aws:braket:us-east-1::device/qpu/ionq/Forte-Enterprise-1'',
      region = ''us-east-1'', description = ''IonQ trapped ion quantum processor'',
      advantages = [''Real quantum hardware'', ''High fidelity'', ''All-to-all connectivity''],
      typical_runtime = ''5-30 minutes'', max_qubits = 32, supports_bell_states = True,
      async_required = True, dev_status = None, aws_configured = None\<rparr>),
    (''iqm_garnet'',
     \<lparr>dev_name = ''IQM Garnet'', dev_type = ''qpu'',
      arn = ''arn:aws:braket:eu-north-1::device/qpu/iqm/Emerald'',
      region = ''eu-north-1'', description = ''IQM superconducting quantum processor'',
      advantages = [''European quantum hardware'', ''Superconducting qubits'', ''Fast gates''],
      typical_runtime = ''10-45 minutes'', max_qubits = 20, supports_bell_states = True,
      async_required = True, dev_status = None, aws_configured = None\<rparr>),
    (''quera_aquila'',
     \<lparr>dev_name = ''QuEra Aquila'', dev_type = ''qpu'',
      arn = ''arn:aws:braket:us-east-1::device/qpu/quera/Aquila'',
      region = ''us-east-1'', description = ''QuEra neutral atom quantum processor'',
      advantages = [''Neutral atom technology'', ''Programmable topology'',
        ''Analog quantum simulation''],
      typical_runtime = ''15-60 minutes'', max_qubits = 256, supports_bell_states = False,
      async_required = True, dev_status = None, aws_configured = None\<rparr>),
    (''rigetti_ankaa3'',
     \<lparr>dev_name = ''Rigetti Ankaa-3'', dev_type = ''qpu'',
      arn = ''arn:aws:braket:us-west-1::device/qpu/rigetti/Ankaa-3'',
      region = ''us-west-1'', description = ''Rigetti superconducting quantum processor'',
      advantages = [''Parametric gates'', ''Fast execution'', ''NISQ algorithms''],
      typical_runtime = ''5-20 minutes'', max_qubits = 84, supports_bell_states = True,
      async_required = True, dev_status = None, aws_configured = None\<rparr>)]"

section \<open>EnhancedQuantumService: the state\<close>

text \<open>
  The mutable state of one service object: the catalogue of its device manager (a shared
  dictionary of shared dictionaries), the job table, the result cache keyed by an MD5
  digest, the keys of \<^verbatim>\<open>_aws_devices\<close> and whether \<^verbatim>\<open>_aws_session\<close> is set.
\<close>

record service =
  devices :: "(string \<times> device) list"
  job_manager :: jobdb
  circuit_cache :: "string \<rightharpoonup> int"
  aws_devices :: "string list"
  aws_session :: bool

definition startswith :: "string \<Rightarrow> string \<Rightarrow> bool" where
  "startswith s p = (take (length p) s = p)"

text \<open>\<^verbatim>\<open>sub in s\<close> on strings.\<close>

fun py_in :: "string \<Rightarrow> string \<Rightarrow> bool" where
  "py_in sub [] = (sub = [])"
| "py_in sub (c # cs) = (take (length sub) (c # cs) = sub \<or> py_in sub cs)"

text \<open>
  \<^verbatim>\<open>EnhancedQuantumService.__init__\<close>: the AWS session either exists or not; with a session,
  every catalogue entry whose ARN starts with \<^verbatim>\<open>arn:aws:braket\<close> and whose \<^verbatim>\<open>AwsDevice\<close>
  could be built (\<open>reachable\<close>) is cached. The job table is the database file found on disk.
\<close>

definition init_service :: "jobdb \<Rightarrow> bool \<Rightarrow> (string \<Rightarrow> bool) \<Rightarrow> service" where
  "init_service db session reachable =
     \<lparr>devices = initial_devices, job_manager = db, circuit_cache = Map.empty,
      aws_devices =
        (if session
         then map fst (filter (\<lambda>(dev, info). startswith (arn info) ''arn:aws:braket'' \<and> reachable dev)
                initial_devices)
         else []),
      aws_session = session\<rparr>"

definition get_device_info :: "service \<Rightarrow> string \<Rightarrow> device option" where
  "get_device_info svc dev = map_of (devices svc) dev"

text \<open>
  \<^verbatim>\<open>QuantumDeviceManager.get_available_devices\<close> returns \<^verbatim>\<open>self.devices\<close> itself, and
  \<^verbatim>\<open>EnhancedQuantumService.get_available_devices\<close> assigns \<^verbatim>\<open>status\<close> and \<^verbatim>\<open>aws_configured\<close>
  in each dictionary of it: the returned catalogue is the stored one, after the writes.
\<close>

definition manager_get_available_devices :: "service \<Rightarrow> (string \<times> device) list" where
  "manager_get_available_devices svc = devices svc"

definition add_status :: "service \<Rightarrow> string \<Rightarrow> device \<Rightarrow> device" where
  "add_status svc dev info =
     (if dev = ''local_simulator''
      then info\<lparr>dev_status := Some ''Always Available'', aws_configured := Some False\<rparr>
      else if aws_session svc \<and> dev \<in> set (aws_devices svc)
      then info\<lparr>dev_status := Some ''AWS Connected'', aws_configured := Some True\<rparr>
      else if startswith (arn info) ''arn:aws:braket''
      then info\<lparr>dev_status := Some ''AWS Not Configured'', aws_configured := Some False\<rparr>
      else info\<lparr>dev_status := Some ''Available'', aws_configured := Some False\<rparr>)"

definition get_available_devices :: "service \<Rightarrow> (string \<times> device) list \<times> service" where
  "get_available_devices svc =
     (let devs = map (\<lambda>(dev, info). (dev, add_status svc dev info))
                   (manager_get_available_devices svc)
      in (devs, svc\<lparr>devices := devs\<rparr>))"

text \<open>
  \<^verbatim>\<open>get_device_by_type\<close> builds a new dictionary \<^verbatim>\<open>{**device, 'id': device_id}\<close> for each match.
\<close>

definition get_device_by_type :: "service \<Rightarrow> string \<Rightarrow> (string \<times> device) list" where
  "get_device_by_type svc ty = filter (\<lambda>(dev, info). dev_type info = ty) (devices svc)"

section \<open>Running circuits\<close>

text \<open>
  What the world outside answers during one call that runs a circuit. A run, with the
  polling loop and its timeout and the reading of the measurement, either raises or
  yields a value: \<open>local_run\<close> for \<^verbatim>\<open>self.local_simulator\<close>, \<open>aws_run key\<close> for the device
  cached under \<open>key\<close> in \<^verbatim>\<open>_aws_devices\<close>. \<open>choice key\<close> is what \<^verbatim>\<open>random.choice\<close> returns for
  that entry of the simulated availability table.
\<close>

record 'a runs =
  local_run :: "pyerror + 'a"
  aws_run :: "string \<Rightarrow> pyerror + 'a"
  choice :: "string \<Rightarrow> bool"

text \<open>\<^verbatim>\<open>_check_device_availability\<close>, its \<^verbatim>\<open>available\<close> entry (the reason is only logged).\<close>

definition check_device_availability :: "service \<Rightarrow> (string \<Rightarrow> bool) \<Rightarrow> string \<Rightarrow> bool" where
  "check_device_availability svc pick dev =
     (if dev = ''local_simulator'' then True
      else if \<not> aws_session svc \<or> dev \<notin> set (aws_devices svc) then False
      else case get_device_info svc dev of
          None \<Rightarrow> False
        | Some info \<Rightarrow>
            if dev_type info \<in> {''simulator'', ''managed_simulator''} then True
            else if dev \<in> {''ionq_forte'', ''iqm_garnet'', ''quera_aquila'', ''rigetti_ankaa''}
            then pick dev
            else True)"

text \<open>
  The \<^verbatim>\<open>try\<close> body shared by \<^verbatim>\<open>_execute_on_device\<close> and \<^verbatim>\<open>_execute_bell_state_on_device\<close>,
  up to the reading of the measurement: \<open>Inl\<close> is the exception that reaches the \<^verbatim>\<open>except\<close>
  clause. On an unavailable device the run moves to \<^verbatim>\<open>aws_sv1\<close> when that key is cached,
  and raises otherwise; \<^verbatim>\<open>device_info['async_required']\<close> is read after the task is
  submitted.
\<close>

definition submit_and_wait :: "service \<Rightarrow> 'a runs \<Rightarrow> string \<Rightarrow> string \<Rightarrow> pyerror + 'a" where
  "submit_and_wait svc env dev aws_device =
     (case get_device_info svc dev of
        None \<Rightarrow> Inl (KeyError ''async_required'')
      | Some info \<Rightarrow> aws_run env aws_device)"

definition run_on_device :: "service \<Rightarrow> 'a runs \<Rightarrow> string \<Rightarrow> pyerror + 'a" where
  "run_on_device svc env dev =
     (if dev = ''local_simulator'' then local_run env
      else if dev \<in> set (aws_devices svc) \<and> aws_session svc then
        (if \<not> check_device_availability svc (choice env) dev then
           (if ''aws_sv1'' \<in> set (aws_devices svc)
            then submit_and_wait svc env dev ''aws_sv1''
            else Inl (Exception (''Device '' @ dev @ '' unavailable and no fallback available'')))
         else submit_and_wait svc env dev dev)
      else local_run env)"

text \<open>
  \<^verbatim>\<open>_execute_on_device\<close>: any exception of the body is caught and replaced by
  \<^verbatim>\<open>int(circuit_hash[:8], 16) % 1000\<close>; \<open>digest\<close> is \<^verbatim>\<open>int(circuit_hash[:8], 16)\<close>.
\<close>

definition execute_on_device :: "service \<Rightarrow> int runs \<Rightarrow> int \<Rightarrow> string \<Rightarrow> int" where
  "execute_on_device svc env digest dev =
     (case run_on_device svc env dev of Inr n \<Rightarrow> n | Inl e \<Rightarrow> digest mod 1000)"

text \<open>
  \<^verbatim>\<open>_execute_bell_state_on_device\<close>: the counts of \<^verbatim>\<open>00\<close>, \<^verbatim>\<open>01\<close>, \<^verbatim>\<open>10\<close>, \<^verbatim>\<open>11\<close> (the only
  outcomes of the two measured qubits) become probabilities; a division by zero or any
  other exception gives the ideal Bell probabilities.
\<close>

definition ideal_bell :: "real list" where
  "ideal_bell = [0.5, 0.0, 0.0, 0.5]"

definition execute_bell_state_on_device ::
  "service \<Rightarrow> (nat \<times> nat \<times> nat \<times> nat) runs \<Rightarrow> string \<Rightarrow> real list" where
  "execute_bell_state_on_device svc env dev =
     (case run_on_device svc env dev of
        Inl e \<Rightarrow> ideal_bell
      | Inr (c00, c01, c10, c11) \<Rightarrow>
          (let total_shots = c00 + c01 + c10 + c11
           in if total_shots = 0 then ideal_bell
              else map (\<lambda>c. real c / real total_shots) [c00, c01, c10, c11]))"

text \<open>
  \<^verbatim>\<open>_create_bell_state_circuit\<close>: \<^verbatim>\<open>{}.get('supports_bell_states', True)\<close> is true, and the
  \<^verbatim>\<open>KeyError\<close> of \<^verbatim>\<open>device_info['type']\<close> is raised inside the \<^verbatim>\<open>try\<close>.
\<close>

definition create_bell_state_circuit ::
  "service \<Rightarrow> (nat \<times> nat \<times> nat \<times> nat) runs \<Rightarrow> string \<Rightarrow> real list" where
  "create_bell_state_circuit svc env dev =
     (case get_device_info svc dev of
        None \<Rightarrow> ideal_bell
      | Some info \<Rightarrow>
          if \<not> supports_bell_states info then ideal_bell
          else execute_bell_state_on_device svc env dev)"

text \<open>
  What one call of \<^verbatim>\<open>_generate_quantum_random_number\<close> reads: \<open>clock\<close> is
  \<^verbatim>\<open>int(time.time())\<close>, \<open>ahs\<close> the outcome of \<^verbatim>\<open>_ahs_from_seed\<close>, \<open>fallback_hash\<close> the value of
  \<^verbatim>\<open>hash(seed_text + str(time.time()))\<close>, \<open>digest\<close> the circuit's digest. The circuit is built
  from the seed and handed to the backend; it has no other use.
\<close>

record qrn_env =
  clock :: int
  ahs :: "pyerror + int"
  fallback_hash :: int
  digest :: int
  circuit_runs :: "int runs"

text \<open>
  \<^verbatim>\<open>_generate_quantum_random_number\<close>; \<open>md5\<close> is \<^verbatim>\<open>hashlib.md5(...).hexdigest()\<close>. A cached
  key returns \<^verbatim>\<open>(base_result + int(time.time())) % 1000\<close> and leaves the cache as it is.
  \<^verbatim>\<open>device_info['max_qubits']\<close> is read outside the \<^verbatim>\<open>try\<close>. \<^verbatim>\<open>_execute_on_device\<close> catches
  what its body raises, so the second \<^verbatim>\<open>except\<close> clause has nothing to catch.
\<close>

definition generate_quantum_random_number ::
  "(string \<Rightarrow> string) \<Rightarrow> service \<Rightarrow> qrn_env \<Rightarrow> string \<Rightarrow> string \<Rightarrow> (pyerror + int) \<times> service" where
  "generate_quantum_random_number md5 svc env dev seed_text =
     (let cache_key = md5 (dev @ ''_'' @ seed_text) in
      case circuit_cache svc cache_key of
        Some base_result \<Rightarrow> (Inr ((base_result + clock env) mod 1000), svc)
      | None \<Rightarrow>
          if py_in ''quera'' dev then
            (case ahs env of
               Inr quantum_number \<Rightarrow>
                 (Inr quantum_number,
                  svc\<lparr>circuit_cache := (circuit_cache svc)(cache_key \<mapsto> quantum_number)\<rparr>)
             | Inl e \<Rightarrow> (Inr (fallback_hash env mod 1000), svc))
          else
            (case get_device_info svc dev of
               None \<Rightarrow> (Inl (KeyError ''max_qubits''), svc)
             | Some info \<Rightarrow>
                 (let quantum_number = execute_on_device svc (circuit_runs env) (digest env) dev
                  in (Inr quantum_number,
                      svc\<lparr>circuit_cache := (circuit_cache svc)(cache_key \<mapsto> quantum_number)\<rparr>))))"

section \<open>The dual-track entry point\<close>

text \<open>\<^verbatim>\<open>str(e)\<close> of a caught exception.\<close>

definition str_error :: "pyerror \<Rightarrow> string" where
  "str_error e =
     (case e of
        KeyError k \<Rightarrow> [CHR 0x27] @ k @ [CHR 0x27]
      | IndexError \<Rightarrow> ''list index out of range''
      | IntegrityError m \<Rightarrow> m
      | Exception m \<Rightarrow> m)"

text \<open>
  \<^verbatim>\<open>_estimate_completion_time\<close>: the minutes added to the current time; \<open>iso_after m\<close> is the
  ISO text of the current time plus \<open>m\<close> minutes.
\<close>

definition estimate_minutes :: "device \<Rightarrow> nat" where
  "estimate_minutes info =
     (if dev_type info = ''simulator'' then 0
      else if dev_type info = ''managed_simulator'' then 1
      else if py_in ''ionq'' (arn info) then 15
      else if py_in ''iqm'' (arn info) then 25
      else if py_in ''quera'' (arn info) then 35
      else if py_in ''rigetti'' (arn info) then 10
      else 20)"

definition estimate_completion_time :: "(nat \<Rightarrow> string) \<Rightarrow> device \<Rightarrow> string" where
  "estimate_completion_time iso_after info = iso_after (estimate_minutes info)"

text \<open>The reply dictionary of \<^verbatim>\<open>process_quantum_signature\<close> and its \<^verbatim>\<open>device_info\<close> entry.\<close>

record device_summary =
  info_name :: string
  info_device_job_id :: string
  info_local_job_id :: string
  info_type :: "string option"
  info_estimated_completion :: "string option"

record signature_reply =
  dual_mode :: bool
  quantum_number :: int
  entanglement_data :: "real list"
  local_job_id :: string
  device_job_id :: string
  device_info :: device_summary
  local_result :: job_result
  device_result :: "job_result option"

datatype reply = Failure string | Success signature_reply

text \<open>
  A coroutine handed to \<^verbatim>\<open>asyncio.create_task\<close>: the arguments of
  \<^verbatim>\<open>_process_quantum_job_for_signature\<close>. The caller does not run it.
\<close>

record bg_task =
  task_job_id :: string
  task_device_id :: string
  task_name :: string
  task_response :: string

text \<open>
  What one call of \<^verbatim>\<open>process_quantum_signature\<close> reads from outside: for each of the two
  \<^verbatim>\<open>create_job\<close> calls the clock, the token and the database's current timestamp; for each
  track the text of \<^verbatim>\<open>time.time()\<close> in its seed, the readings of its two circuit runs, the
  ISO text of its end time and its duration.
\<close>

record process_env =
  t1 :: nat
  tok1 :: string
  now1 :: string
  t2 :: nat
  tok2 :: string
  now2 :: string
  local_seed_time :: string
  local_qrn :: qrn_env
  local_bell :: "(nat \<times> nat \<times> nat \<times> nat) runs"
  local_end :: string
  local_duration_ms :: real
  iso_after :: "nat \<Rightarrow> string"
  device_seed_time :: string
  device_qrn :: qrn_env
  device_bell :: "(nat \<times> nat \<times> nat \<times> nat) runs"
  device_end :: string
  device_duration_ms :: real

text \<open>
  The branch for a device that needs no asynchronous run, after the local track is done.
\<close>

definition process_device_inline ::
  "(string \<Rightarrow> string) \<Rightarrow> service \<Rightarrow> process_env \<Rightarrow> string \<Rightarrow> string \<Rightarrow> string \<Rightarrow> device
     \<Rightarrow> string \<Rightarrow> string \<Rightarrow> job_result \<Rightarrow> reply \<times> service \<times> bg_task list" where
  "process_device_inline md5 svc env name response quantum_device info local_jid device_jid
       local_res =
     (let svc1 = svc\<lparr>job_manager := update_job_status (job_manager svc) device_jid ''running'' []\<rparr>;
          device_seed = name @ '':'' @ response @ '':device:'' @ device_seed_time env
      in case generate_quantum_random_number md5 svc1 (device_qrn env) quantum_device device_seed of
           (Inl e, svc2) \<Rightarrow> (Failure (str_error e), svc2, [])
         | (Inr device_quantum_number, svc2) \<Rightarrow>
             (let device_entanglement_data =
                    create_bell_state_circuit svc2 (device_bell env) quantum_device;
                  device_res =
                    \<lparr>res_quantum_number = device_quantum_number,
                     res_entanglement_data = device_entanglement_data,
                     res_device_name = dev_name info, res_device_type = dev_type info,
                     res_processing_time_ms = Some (device_duration_ms env)\<rparr>;
                  svc3 = svc2\<lparr>job_manager :=
                    update_job_status (job_manager svc2) device_jid ''completed''
                      [(''completed_at'', Text (device_end env)),
                       (''result_data'', JsonText device_res)]\<rparr>
              in (Success
                    \<lparr>dual_mode = True,
                     quantum_number = res_quantum_number local_res,
                     entanglement_data = res_entanglement_data local_res,
                     local_job_id = local_jid, device_job_id = device_jid,
                     device_info =
                       \<lparr>info_name = dev_name info, info_device_job_id = device_jid,
                        info_local_job_id = local_jid, info_type = None,
                        info_estimated_completion = None\<rparr>,
                     local_result = local_res, device_result = Some device_res\<rparr>,
                  svc3, [])))"

text \<open>
  \<^verbatim>\<open>process_quantum_signature\<close>. The device is looked up first and an unknown one is
  answered at once. Then both jobs are created, the local one is run and completed, and
  the selected device is either handed to a background task or run inline. An exception
  ends the call with a failure reply and leaves the table as it was when it was raised.
\<close>

definition process_quantum_signature ::
  "(string \<Rightarrow> string) \<Rightarrow> service \<Rightarrow> process_env \<Rightarrow> string \<Rightarrow> string \<Rightarrow> string
     \<Rightarrow> reply \<times> service \<times> bg_task list" where
  "process_quantum_signature md5 svc env name response quantum_device =
     (case get_device_info svc quantum_device of
        None \<Rightarrow> (Failure (''Unknown quantum device: '' @ quantum_device), svc, [])
      | Some info \<Rightarrow>
     (case create_job (job_manager svc) (t1 env) (tok1 env) (now1 env)
             ''local_simulator'' ''local://simulator'' name (response @ ''_local'') of
        Inl e \<Rightarrow> (Failure (str_error e), svc, [])
      | Inr (local_jid, db1) \<Rightarrow>
     (case create_job db1 (t2 env) (tok2 env) (now2 env)
             quantum_device (arn info) name (response @ ''_device'') of
        Inl e \<Rightarrow> (Failure (str_error e), svc\<lparr>job_manager := db1\<rparr>, [])
      | Inr (device_jid, db2) \<Rightarrow>
     (let svc1 = svc\<lparr>job_manager := update_job_status db2 local_jid ''running'' []\<rparr>;
          seed = name @ '':'' @ response @ '':local:'' @ local_seed_time env
      in case generate_quantum_random_number md5 svc1 (local_qrn env) ''local_simulator'' seed of
           (Inl e, svc2) \<Rightarrow> (Failure (str_error e), svc2, [])
         | (Inr local_quantum_number, svc2) \<Rightarrow>
     (let local_entanglement_data =
            create_bell_state_circuit svc2 (local_bell env) ''local_simulator'';
          local_res =
            \<lparr>res_quantum_number = local_quantum_number,
             res_entanglement_data = local_entanglement_data,
             res_device_name = ''Local Simulator'', res_device_type = ''simulator'',
             res_processing_time_ms = Some (local_duration_ms env)\<rparr>;
          svc3 = svc2\<lparr>job_manager :=
            update_job_status (job_manager svc2) local_jid ''completed''
              [(''completed_at'', Text (local_end env)), (''result_data'', JsonText local_res)]\<rparr>
      in if async_required info then
           (Success
              \<lparr>dual_mode = True,
               quantum_number = local_quantum_number,
               entanglement_data = local_entanglement_data,
               local_job_id = local_jid, device_job_id = device_jid,
               device_info =
                 \<lparr>info_name = dev_name info, info_device_job_id = device_jid,
                  info_local_job_id = local_jid, info_type = Some (dev_type info),
                  info_estimated_completion =
                    Some (estimate_completion_time (iso_after env) info)\<rparr>,
               local_result = local_res, device_result = None\<rparr>,
            svc3,
            [\<lparr>task_job_id = device_jid, task_device_id = quantum_device,
              task_name = name, task_response = response\<rparr>])
         else process_device_inline md5 svc3 env name response quantum_device info
                local_jid device_jid local_res)))))"

section \<open>The background task\<close>

text \<open>
  What one run of \<^verbatim>\<open>_process_quantum_job_for_signature\<close> reads from outside. The
  simulated delay of \<^verbatim>\<open>_simulate_quantum_processing\<close> changes no state, and
  \<^verbatim>\<open>_update_signature_with_device_results\<close> writes to the signature database only and
  catches its own exceptions.
\<close>

record bg_env =
  bg_submitted_at :: string
  bg_iso_after :: "nat \<Rightarrow> string"
  bg_seed_time :: string
  bg_qrn :: qrn_env
  bg_bell :: "(nat \<times> nat \<times> nat \<times> nat) runs"
  bg_completed_at :: string
  bg_failed_at :: string

definition simulate_quantum_processing :: "service \<Rightarrow> string \<Rightarrow> service" where
  "simulate_quantum_processing svc jid =
     svc\<lparr>job_manager := update_job_status (job_manager svc) jid ''running'' []\<rparr>"

text \<open>The \<^verbatim>\<open>except\<close> clause of the task: the job is marked failed with the message.\<close>

definition mark_failed :: "service \<Rightarrow> bg_env \<Rightarrow> string \<Rightarrow> pyerror \<Rightarrow> service" where
  "mark_failed svc env jid e =
     svc\<lparr>job_manager := update_job_status (job_manager svc) jid ''failed''
       [(''completed_at'', Text (bg_failed_at env)), (''error_message'', Text (str_error e))]\<rparr>"

definition process_quantum_job_for_signature ::
  "(string \<Rightarrow> string) \<Rightarrow> service \<Rightarrow> bg_env \<Rightarrow> bg_task \<Rightarrow> service" where
  "process_quantum_job_for_signature md5 svc env task =
     (let jid = task_job_id task; dev = task_device_id task in
      case get_device_info svc dev of
        None \<Rightarrow> mark_failed svc env jid (KeyError ''type'')
      | Some info \<Rightarrow>
          (let svc1 = svc\<lparr>job_manager := update_job_status (job_manager svc) jid ''submitted''
                 [(''submitted_at'', Text (bg_submitted_at env)),
                  (''estimated_completion'',
                     Text (estimate_completion_time (bg_iso_after env) info))]\<rparr>;
               svc2 = simulate_quantum_processing svc1 jid;
               seed = task_name task @ '':'' @ task_response task @ '':'' @ bg_seed_time env
           in case generate_quantum_random_number md5 svc2 (bg_qrn env) dev seed of
                (Inl e, svc3) \<Rightarrow> mark_failed svc3 env jid e
              | (Inr number, svc3) \<Rightarrow>
                  (let entanglement = create_bell_state_circuit svc3 (bg_bell env) dev;
                       res = \<lparr>res_quantum_number = number, res_entanglement_data = entanglement,
                              res_device_name = dev_name info, res_device_type = dev_type info,
                              res_processing_time_ms = None\<rparr>
                   in svc3\<lparr>job_manager := update_job_status (job_manager svc3) jid ''completed''
                        [(''completed_at'', Text (bg_completed_at env)),
                         (''result_data'', JsonText res)]\<rparr>)))"

section \<open>Placement on the wall\<close>

text \<open>
  \<^verbatim>\<open>_generate_collision_free_position\<close>. The existing signatures are given by their stored
  positions (columns \<^verbatim>\<open>position_x\<close>, \<^verbatim>\<open>position_y\<close>, both \<^verbatim>\<open>REAL NOT NULL\<close>). After
  \<^verbatim>\<open>random.seed(quantum_number)\<close> the generator is the sequence \<open>draws\<close> of its
  \<^verbatim>\<open>random()\<close> outputs, and \<^verbatim>\<open>random.uniform(a, b)\<close> is \<^verbatim>\<open>a + (b - a) * random()\<close>.
\<close>

definition container_width :: real where
  "container_width = 1400"

definition container_height :: real where
  "container_height = max 600 (of_int \<lfloor>900 * 0.8 :: real\<rfloor>)"

text \<open>Card width, card height and minimal spacing in pixels, by the number of signatures.\<close>

definition card_dims :: "nat \<Rightarrow> real \<times> real \<times> real" where
  "card_dims num_signatures =
     (if num_signatures \<le> 4 then
        (max 280 (min 400 (container_width / 2.8)), max 180 (min 240 (container_height / 2.8)), 30)
      else if num_signatures \<le> 6 then
        (max 250 (min 350 (container_width / 3.2)), max 160 (min 220 (container_height / 2.6)), 25)
      else if num_signatures \<le> 9 then
        (max 220 (min 300 (container_width / 3.8)), max 140 (min 190 (container_height / 3.2)), 20)
      else if num_signatures \<le> 12 then
        (max 200 (min 260 (container_width / 4.5)), max 130 (min 170 (container_height / 3.8)), 15)
      else
        (max 180 (min 220 (container_width / 5.5)), max 120 (min 150 (container_height / 4.5)), 12))"

definition effective_width_pct :: "nat \<Rightarrow> real" where
  "effective_width_pct num_signatures =
     (case card_dims num_signatures of (card_width, card_height, min_spacing) \<Rightarrow>
        (card_width / container_width) * 100 * 1.02 + (6 / container_width) * 100)"

definition effective_height_pct :: "nat \<Rightarrow> real" where
  "effective_height_pct num_signatures =
     (case card_dims num_signatures of (card_width, card_height, min_spacing) \<Rightarrow>
        (card_height / container_height) * 100 * 1.02 + (6 / container_height) * 100)"

definition spacing_pct :: "nat \<Rightarrow> real" where
  "spacing_pct num_signatures =
     (case card_dims num_signatures of (card_width, card_height, min_spacing) \<Rightarrow>
        (min_spacing / container_width) * 100)"

text \<open>A zone or region: its \<^verbatim>\<open>x_range\<close> and its \<^verbatim>\<open>y_range\<close>.\<close>

type_synonym box = "(real \<times> real) \<times> (real \<times> real)"

definition zone :: "nat \<Rightarrow> box" where
  "zone attempt =
     (if attempt < 50 then ((30, 70), (30, 70))
      else if attempt < 100 then ((20, 80), (20, 80))
      else ((15, 85), (15, 85)))"

definition device_region :: "string \<Rightarrow> box" where
  "device_region dev =
     (if dev = ''local_simulator'' then ((20, 50), (20, 50))
      else if dev = ''aws_sv1'' then ((50, 80), (20, 50))
      else if dev = ''ionq_forte'' then ((20, 50), (50, 80))
      else if dev = ''iqm_garnet'' then ((50, 80), (50, 80))
      else if dev = ''quera_aquila'' then ((30, 70), (30, 70))
      else if dev = ''rigetti_ankaa'' then ((25, 75), (25, 75))
      else ((10, 90), (10, 90)))"

definition uniform :: "real \<Rightarrow> real \<Rightarrow> real \<Rightarrow> real" where
  "uniform a b u = a + (b - a) * u"

text \<open>
  One pass of the loop body up to the candidate: \<open>None\<close> is \<^verbatim>\<open>continue\<close>. \<open>k\<close> counts the
  draws taken so far.
\<close>

definition propose ::
  "nat \<Rightarrow> string \<Rightarrow> (nat \<Rightarrow> real) \<Rightarrow> nat \<Rightarrow> nat \<Rightarrow> (real \<times> real) option \<times> nat" where
  "propose num_signatures dev draws k attempt =
     (case (zone attempt, device_region dev) of
        (((zx0, zx1), (zy0, zy1)), ((rx0, rx1), (ry0, ry1))) \<Rightarrow>
     (let effective_x_min = max zx0 rx0; effective_x_max = min zx1 rx1;
          effective_y_min = max zy0 ry0; effective_y_max = min zy1 ry1;
          ew = effective_width_pct num_signatures; eh = effective_height_pct num_signatures
      in if effective_x_max \<le> effective_x_min \<or> effective_y_max \<le> effective_y_min then (None, k)
         else if attempt < 75 then
           (let grid_size = (8::nat); grid_x = attempt mod grid_size; grid_y = attempt div grid_size
            in if grid_x < grid_size \<and> grid_y < grid_size then
                 (let x_range = effective_x_max - effective_x_min - ew;
                      y_range = effective_y_max - effective_y_min - eh
                  in if x_range > 0 \<and> y_range > 0 then
                       (Some (effective_x_min + (real grid_x / real (max 1 (grid_size - 1))) * x_range
                                + uniform (- 2) 2 (draws k),
                              effective_y_min + (real grid_y / real (max 1 (grid_size - 1))) * y_range
                                + uniform (- 2) 2 (draws (k + 1))),
                        k + 2)
                     else (None, k))
               else (None, k))
         else if effective_x_max - effective_x_min > ew \<and> effective_y_max - effective_y_min > eh then
           (Some (uniform effective_x_min (effective_x_max - ew) (draws k),
                  uniform effective_y_min (effective_y_max - eh) (draws (k + 1))),
            k + 2)
         else (None, k)))"

definition clamp_position :: "nat \<Rightarrow> real \<times> real \<Rightarrow> real \<times> real" where
  "clamp_position num_signatures p =
     (max 12 (min (88 - effective_width_pct num_signatures) (fst p)),
      max 12 (min (88 - effective_height_pct num_signatures) (snd p)))"

text \<open>The collision test of the loop, against every existing signature.\<close>

definition collision_found :: "nat \<Rightarrow> real \<times> real \<Rightarrow> (real \<times> real) list \<Rightarrow> bool" where
  "collision_found num_signatures p existing =
     list_ex (\<lambda>e. \<bar>fst p - fst e\<bar> < effective_width_pct num_signatures + spacing_pct num_signatures
                \<and> \<bar>snd p - snd e\<bar> < effective_height_pct num_signatures + spacing_pct num_signatures)
       existing"

text \<open>
  The loop \<^verbatim>\<open>for attempt in range(max_attempts)\<close>: \<open>n\<close> passes are left, the next one is
  numbered \<open>attempt\<close>. \<open>None\<close>: the loop ended without a \<^verbatim>\<open>return\<close>.
\<close>

fun search ::
  "nat \<Rightarrow> string \<Rightarrow> (nat \<Rightarrow> real) \<Rightarrow> (real \<times> real) list \<Rightarrow> nat \<Rightarrow> nat \<Rightarrow> nat
     \<Rightarrow> (real \<times> real) option" where
  "search num_signatures dev draws existing 0 attempt k = None"
| "search num_signatures dev draws existing (Suc n) attempt k =
     (case propose num_signatures dev draws k attempt of
        (None, k') \<Rightarrow> search num_signatures dev draws existing n (Suc attempt) k'
      | (Some p, k') \<Rightarrow>
          if collision_found num_signatures (clamp_position num_signatures p) existing
          then search num_signatures dev draws existing n (Suc attempt) k'
          else Some (clamp_position num_signatures p))"

definition max_attempts :: nat where
  "max_attempts = 150"

text \<open>\<^verbatim>\<open>_generate_center_spiral_position\<close>.\<close>

definition generate_center_spiral_position :: "nat \<Rightarrow> real \<Rightarrow> real \<Rightarrow> real \<times> real" where
  "generate_center_spiral_position signature_count ew eh =
     (let angle = real signature_count * 0.8;
          radius = 8 + real signature_count * 2.5;
          spiral_x = 50 + radius * cos angle;
          spiral_y = 50 + radius * sin angle
      in (max 12 (min (88 - ew) spiral_x), max 12 (min (88 - eh) spiral_y)))"

definition generate_collision_free_position ::
  "(real \<times> real) list \<Rightarrow> (int \<Rightarrow> nat \<Rightarrow> real) \<Rightarrow> string \<Rightarrow> int \<Rightarrow> real \<times> real" where
  "generate_collision_free_position existing rng dev number =
     (let num_signatures = length existing + 1 in
      case search num_signatures dev (rng number) existing max_attempts 0 0 of
        Some p \<Rightarrow> p
      | None \<Rightarrow>
          generate_center_spiral_position (length existing)
            (effective_width_pct num_signatures) (effective_height_pct num_signatures))"

section \<open>Visual properties\<close>

text \<open>
  The values of the dictionary \<^verbatim>\<open>_generate_device_specific_visuals\<close> returns. The text
  \<^verbatim>\<open>hsl(h, s%, l%)\<close> is kept as the three numbers it prints.
\<close>

datatype pyval = PStr string | PInt int | PReal real | PHsl real real real

text \<open>\<^verbatim>\<open>x % m\<close> on floats, for a positive \<open>m\<close>.\<close>

definition fmod :: "real \<Rightarrow> real \<Rightarrow> real" where
  "fmod x m = x - m * of_int \<lfloor>x / m\<rfloor>"

definition device_hue :: "string \<Rightarrow> int \<Rightarrow> real" where
  "device_hue dev number =
     (let hue = fmod (of_int number * 137.5) 360 in
      if py_in ''ionq'' dev then fmod (hue + 60) 360
      else if py_in ''iqm'' dev then fmod (hue + 120) 360
      else if py_in ''quera'' dev then fmod (hue + 180) 360
      else if py_in ''rigetti'' dev then fmod (hue + 240) 360
      else if py_in ''aws'' dev then fmod (hue + 300) 360
      else hue)"

text \<open>
  \<^verbatim>\<open>_generate_device_specific_visuals\<close>, in the order Python evaluates it:
  \<^verbatim>\<open>entanglement_data[0]\<close> first, then the position, then the entries of the dictionary, of
  which \<^verbatim>\<open>entanglement_data[3]\<close> comes before \<^verbatim>\<open>device_info['type']\<close>.
\<close>

definition generate_device_specific_visuals ::
  "service \<Rightarrow> (real \<times> real) list \<Rightarrow> (int \<Rightarrow> nat \<Rightarrow> real) \<Rightarrow> string \<Rightarrow> int \<Rightarrow> real list
     \<Rightarrow> pyerror + (string \<times> pyval) list" where
  "generate_device_specific_visuals svc existing rng dev number data =
     (let hue = device_hue dev number;
          saturation = 70 + sum_list data * 30
      in if length data < 1 then Inl IndexError
         else
           (let lightness = 45 + (data ! 0) * 20;
                position = generate_collision_free_position existing rng dev number
            in if length data < 4 then Inl IndexError
               else case get_device_info svc dev of
                      None \<Rightarrow> Inl (KeyError ''type'')
                    | Some info \<Rightarrow>
                        Inr [(''color'', PHsl hue saturation lightness),
                             (''position_x'', PReal (fst position)),
                             (''position_y'', PReal (snd position)),
                             (''pulse_speed'', PInt (2 + number mod 3)),
                             (''size_factor'', PReal (0.8 + (data ! 3) * 0.4)),
                             (''device_indicator'', PStr (dev_type info))]))"

definition generate_visual_properties ::
  "service \<Rightarrow> (real \<times> real) list \<Rightarrow> (int \<Rightarrow> nat \<Rightarrow> real) \<Rightarrow> int \<Rightarrow> real list \<Rightarrow> string
     \<Rightarrow> pyerror + (string \<times> pyval) list" where
  "generate_visual_properties svc existing rng number data dev =
     generate_device_specific_visuals svc existing rng dev number data"

section \<open>Concrete stores used as test inputs\<close>

definition running_row :: job_row where
  "running_row =
     \<lparr>row_id = 2, job_id = ''qjob_1700000000_00ff00ff00ff00ff'', signature_id = Null,
      device_id = ''ionq_forte'',
      device_arn = ''arn:aws:braket:us-east-1::device/qpu/ionq/Forte-Enterprise-1'',
      user_name = ''Alice'', user_message = ''Hello_device'', status = ''running'',
      created_at = Text ''2024-01-01 10:00:00'', submitted_at = Text ''2024-01-01T10:00:01'',
      completed_at = Null, result_data = Null, error_message = Null,
      estimated_completion = Text ''2024-01-01T10:15:01''\<rparr>"

definition other_row :: job_row where
  "other_row =
     \<lparr>row_id = 1, job_id = ''qjob_1700000000_aaaaaaaaaaaaaaaa'', signature_id = Null,
      device_id = ''local_simulator'', device_arn = ''local://simulator'',
      user_name = ''Alice'', user_message = ''Hello_local'', status = ''created'',
      created_at = Text ''2024-01-01 10:00:00'', submitted_at = Null,
      completed_at = Null, result_data = Null, error_message = Null,
      estimated_completion = Null\<rparr>"

definition frame_db :: jobdb where
  "frame_db = \<lparr>rows = [other_row, running_row], seq = 2\<rparr>"

definition frame_kwargs :: "(string \<times> sqlval) list" where
  "frame_kwargs =
     [(''completed_at'', Text ''2024-01-01T10:07:00''), (''error_message'', Text ''boom''),
      (''user_name'', Text ''Mallory'')]"

definition done_row :: job_row where
  "done_row =
     \<lparr>row_id = 1, job_id = ''qjob_1700000000_0123456789abcdef'', signature_id = Null,
      device_id = ''local_simulator'', device_arn = ''local://simulator'',
      user_name = ''Alice'', user_message = ''Hello_local'', status = ''completed'',
      created_at = Text ''2024-01-01 10:00:00'', submitted_at = Null,
      completed_at = Text ''2024-01-01T10:00:01'',
      result_data = JsonText \<lparr>res_quantum_number = 5, res_entanglement_data = [0.5, 0, 0, 0.5],
        res_device_name = ''Local Simulator'', res_device_type = ''simulator'',
        res_processing_time_ms = Some 12\<rparr>,
      error_message = Null, estimated_completion = Null\<rparr>"

definition done_db :: jobdb where
  "done_db = \<lparr>rows = [done_row], seq = 1\<rparr>"

definition late_kwargs :: "(string \<times> sqlval) list" where
  "late_kwargs = [(''completed_at'', Text ''2024-01-01T10:09:00''), (''error_message'', Text ''late failure'')]"

definition empty_db :: jobdb where
  "empty_db = \<lparr>rows = [], seq = 0\<rparr>"

definition unreachable :: "string \<Rightarrow> bool" where
  "unreachable dev = False"

definition offline_service :: service where
  "offline_service = init_service empty_db False unreachable"

definition id_digest :: "string \<Rightarrow> string" where
  "id_digest s = s"

definition no_aws_int :: "string \<Rightarrow> pyerror + int" where
  "no_aws_int key = Inl (Exception ''AWS is not reachable'')"

definition no_aws_counts :: "string \<Rightarrow> pyerror + (nat \<times> nat \<times> nat \<times> nat)" where
  "no_aws_counts key = Inl (Exception ''AWS is not reachable'')"

definition always :: "string \<Rightarrow> bool" where
  "always key = True"

definition never :: "string \<Rightarrow> bool" where
  "never key = False"

definition first_qrn :: qrn_env where
  "first_qrn =
     \<lparr>clock = 1699999999, ahs = Inl (Exception ''AWS is not reachable''), fallback_hash = 77,
      digest = 123456789,
      circuit_runs = \<lparr>local_run = Inr 5, aws_run = no_aws_int, choice = always\<rparr>\<rparr>"

definition later_qrn :: qrn_env where
  "later_qrn =
     \<lparr>clock = 1700000000, ahs = Inl (Exception ''AWS is not reachable''), fallback_hash = 78,
      digest = 123456789,
      circuit_runs = \<lparr>local_run = Inr 9, aws_run = no_aws_int, choice = always\<rparr>\<rparr>"

definition alice_seed :: string where
  "alice_seed = ''Alice:Hello:local:1699999999.25''"

definition warm_service :: service where
  "warm_service = offline_service\<lparr>circuit_cache :=
     (circuit_cache offline_service)(id_digest (''local_simulator'' @ ''_'' @ alice_seed) \<mapsto> 5)\<rparr>"

definition iso_after_noon :: "nat \<Rightarrow> string" where
  "iso_after_noon m = ''2024-01-01T12:'' @ str_nat m @ '':00''"

definition bell_counts :: "(nat \<times> nat \<times> nat \<times> nat) runs" where
  "bell_counts = \<lparr>local_run = Inr (104, 0, 0, 96), aws_run = no_aws_counts, choice = always\<rparr>"

definition alice_env :: process_env where
  "alice_env =
     \<lparr>t1 = 1700000000, tok1 = ''aaaaaaaaaaaaaaaa'', now1 = ''2024-01-01 12:00:00'',
      t2 = 1700000000, tok2 = ''bbbbbbbbbbbbbbbb'', now2 = ''2024-01-01 12:00:00'',
      local_seed_time = ''1699999999.25'', local_qrn = first_qrn, local_bell = bell_counts,
      local_end = ''2024-01-01T12:00:01'', local_duration_ms = 12,
      iso_after = iso_after_noon,
      device_seed_time = ''1700000000.5'', device_qrn = later_qrn, device_bell = bell_counts,
      device_end = ''2024-01-01T12:00:02'', device_duration_ms = 15\<rparr>"

definition job_ids_of :: "reply \<Rightarrow> (string \<times> string) option" where
  "job_ids_of rep =
     (case rep of Success r \<Rightarrow> Some (local_job_id r, device_job_id r) | Failure m \<Rightarrow> None)"

definition only_ionq :: "string \<Rightarrow> bool" where
  "only_ionq dev = (dev = ''ionq_forte'')"

definition ionq_service :: service where
  "ionq_service = init_service frame_db True only_ionq"

definition ionq_task :: bg_task where
  "ionq_task =
     \<lparr>task_job_id = ''qjob_1700000000_00ff00ff00ff00ff'', task_device_id = ''ionq_forte'',
      task_name = ''Alice'', task_response = ''Hello''\<rparr>"

definition down_env :: bg_env where
  "down_env =
     \<lparr>bg_submitted_at = ''2024-01-01T12:00:03'', bg_iso_after = iso_after_noon,
      bg_seed_time = ''1700000003.5'',
      bg_qrn = \<lparr>clock = 1700000003, ahs = Inl (Exception ''AWS is not reachable''),
        fallback_hash = 79, digest = 123456789,
        circuit_runs = \<lparr>local_run = Inr 9, aws_run = no_aws_int, choice = never\<rparr>\<rparr>,
      bg_bell = \<lparr>local_run = Inr (104, 0, 0, 96), aws_run = no_aws_counts, choice = never\<rparr>,
      bg_completed_at = ''2024-01-01T12:00:09'', bg_failed_at = ''2024-01-01T12:00:09''\<rparr>"

definition sv1_and_ionq :: "string \<Rightarrow> bool" where
  "sv1_and_ionq dev = (dev = ''aws_sv1'' \<or> dev = ''ionq_forte'')"

definition fallback_service :: service where
  "fallback_service = init_service frame_db True sv1_and_ionq"

definition sv1_answers :: "string \<Rightarrow> pyerror + int" where
  "sv1_answers key = (if key = ''aws_sv1'' then Inr 6 else Inl (Exception ''device offline''))"

definition fallback_env :: bg_env where
  "fallback_env =
     \<lparr>bg_submitted_at = ''2024-01-01T12:00:03'', bg_iso_after = iso_after_noon,
      bg_seed_time = ''1700000003.5'',
      bg_qrn = \<lparr>clock = 1700000003, ahs = Inl (Exception ''AWS is not reachable''),
        fallback_hash = 79, digest = 123456789,
        circuit_runs = \<lparr>local_run = Inr 9, aws_run = sv1_answers, choice = never\<rparr>\<rparr>,
      bg_bell = \<lparr>local_run = Inr (104, 0, 0, 96), aws_run = no_aws_counts, choice = never\<rparr>,
      bg_completed_at = ''2024-01-01T12:00:09'', bg_failed_at = ''2024-01-01T12:00:09''\<rparr>"

definition result_number :: "sqlval \<Rightarrow> int option" where
  "result_number v = (case v of JsonText res \<Rightarrow> Some (res_quantum_number res) | _ \<Rightarrow> None)"

definition half_rng :: "int \<Rightarrow> nat \<Rightarrow> real" where
  "half_rng number k = 1 / 2"

definition first_position :: "real \<times> real" where
  "first_position = generate_collision_free_position [] half_rng ''local_simulator'' 5"

definition second_position :: "real \<times> real" where
  "second_position =
     generate_collision_free_position [first_position] half_rng ''local_simulator'' 9"

definition keys_of :: "pyerror + (string \<times> pyval) list \<Rightarrow> string list option" where
  "keys_of res = (case res of Inr ps \<Rightarrow> Some (map fst ps) | Inl e \<Rightarrow> None)"

definition in_band :: "nat \<Rightarrow> real \<times> real \<Rightarrow> bool" where
  "in_band num_signatures p =
     (12 \<le> fst p \<and> fst p \<le> 88 - effective_width_pct num_signatures \<and> fst p < 88
      \<and> 12 \<le> snd p \<and> snd p \<le> 88 - effective_height_pct num_signatures \<and> snd p < 88)"

definition one_entry :: "(real \<times> real) list" where
  "one_entry = [(70, 65)]"

section \<open>The job table: frame of an update\<close>

lemma set_column_frame:
  "row_id (set_column key v r) = row_id r \<and> job_id (set_column key v r) = job_id r \<and>
   device_id (set_column key v r) = device_id r \<and> device_arn (set_column key v r) = device_arn r \<and>
   user_name (set_column key v r) = user_name r \<and> user_message (set_column key v r) = user_message r \<and>
   created_at (set_column key v r) = created_at r \<and> status (set_column key v r) = status r"
  by (simp add: set_column_def)

lemma fold_set_column_frame:
  "row_id (fold (\<lambda>(key, v). set_column key v) cs r) = row_id r \<and>
   job_id (fold (\<lambda>(key, v). set_column key v) cs r) = job_id r \<and>
   device_id (fold (\<lambda>(key, v). set_column key v) cs r) = device_id r \<and>
   device_arn (fold (\<lambda>(key, v). set_column key v) cs r) = device_arn r \<and>
   user_name (fold (\<lambda>(key, v). set_column key v) cs r) = user_name r \<and>
   user_message (fold (\<lambda>(key, v). set_column key v) cs r) = user_message r \<and>
   created_at (fold (\<lambda>(key, v). set_column key v) cs r) = created_at r \<and>
   status (fold (\<lambda>(key, v). set_column key v) cs r) = status r"
proof (induction cs arbitrary: r)
  case Nil
  show ?case by simp
next
  case (Cons c cs)
  obtain key v where c: "c = (key, v)" by (cases c)
  show ?case using Cons [of "set_column key v r"] set_column_frame [of key v r]
    by (simp add: c)
qed

lemma get_set_column_other:
  "key \<noteq> k \<Longrightarrow> get_column key (set_column k v r) = get_column key r"
  by (auto simp add: get_column_def set_column_def)

lemma get_set_column_same:
  "key \<in> set recognised_fields \<Longrightarrow> get_column key (set_column key v r) = v"
  by (auto simp add: get_column_def set_column_def recognised_fields_def)

lemma fold_unnamed:
  "key \<notin> fst ` set cs \<Longrightarrow>
   get_column key (fold (\<lambda>(k, v). set_column k v) cs r) = get_column key r"
proof (induction cs arbitrary: r)
  case Nil
  show ?case by simp
next
  case (Cons c cs)
  obtain k v where c: "c = (k, v)" by (cases c)
  from Cons.prems have "key \<noteq> k" and "key \<notin> fst ` set cs" by (auto simp: c)
  then show ?case using Cons.IH [of "set_column k v r"]
    by (simp add: c get_set_column_other)
qed

lemma fold_named:
  "distinct (map fst cs) \<Longrightarrow> (key, v) \<in> set cs \<Longrightarrow> key \<in> set recognised_fields \<Longrightarrow>
   get_column key (fold (\<lambda>(k, v). set_column k v) cs r) = v"
proof (induction cs arbitrary: r)
  case Nil
  then show ?case by simp
next
  case (Cons c cs)
  obtain k w where c: "c = (k, w)" by (cases c)
  show ?case
  proof (cases "(key, v) = c")
    case True
    then have "key \<notin> fst ` set cs" using Cons.prems(1) by (auto simp: c)
    then show ?thesis using True Cons.prems(3)
      by (simp add: c fold_unnamed get_set_column_same)
  next
    case False
    then have "(key, v) \<in> set cs" using Cons.prems(2) by simp
    then show ?thesis using Cons.IH [of "set_column k w r"] Cons.prems by (simp add: c)
  qed
qed

lemma run_update_frame:
  "row_id (run_update st cs r) = row_id r \<and> job_id (run_update st cs r) = job_id r \<and>
   device_id (run_update st cs r) = device_id r \<and> device_arn (run_update st cs r) = device_arn r \<and>
   user_name (run_update st cs r) = user_name r \<and> user_message (run_update st cs r) = user_message r \<and>
   created_at (run_update st cs r) = created_at r \<and> status (run_update st cs r) = st"
  using fold_set_column_frame [of cs "r\<lparr>status := st\<rparr>"] by (simp add: run_update_def)

lemma run_update_unnamed:
  "key \<notin> fst ` set kwargs \<Longrightarrow>
   get_column key (run_update st (set_clauses kwargs) r) = get_column key r"
proof -
  assume "key \<notin> fst ` set kwargs"
  then have "key \<notin> fst ` set (set_clauses kwargs)" by (auto simp: set_clauses_def)
  then have "get_column key (run_update st (set_clauses kwargs) r) = get_column key (r\<lparr>status := st\<rparr>)"
    unfolding run_update_def by (rule fold_unnamed)
  then show ?thesis by (simp add: get_column_def)
qed

lemma run_update_named:
  assumes "distinct (map fst kwargs)" "(key, v) \<in> set kwargs" "key \<in> set recognised_fields"
  shows "get_column key (run_update st (set_clauses kwargs) r) = v"
proof -
  have d: "distinct (map fst (set_clauses kwargs))"
    unfolding set_clauses_def using assms(1) by (rule distinct_map_filter)
  have m: "(key, v) \<in> set (set_clauses kwargs)"
    using assms(2,3) by (simp add: set_clauses_def)
  show ?thesis unfolding run_update_def using d m assms(3) by (rule fold_named)
qed

lemma set_clauses_idem: "set_clauses (set_clauses kwargs) = set_clauses kwargs"
  by (simp add: set_clauses_def)

text \<open>
  Claim C9. An \<^verbatim>\<open>update_job_status\<close> call on an existing job that is not in a terminal
  state changes, in that job's row, the status and the recognised columns the call names
  and nothing else: row id, job id, device id and ARN, user name, user message and
  creation time stay, a recognised column the call does not name stays, every row of
  another job stays, and keyword arguments outside the six recognised names have no
  effect. The keyword arguments are a dictionary, so their keys are distinct.
\<close>

theorem update_job_status_frame:
  assumes i: "i < length (rows db)"
    and jid: "job_id (rows db ! i) = jid"
    and live: "status (rows db ! i) \<notin> {''completed'', ''failed''}"
    and dict: "distinct (map fst kwargs)"
  shows "length (rows (update_job_status db jid st kwargs)) = length (rows db)
    \<and> seq (update_job_status db jid st kwargs) = seq db
    \<and> status (rows (update_job_status db jid st kwargs) ! i) = st
    \<and> row_id (rows (update_job_status db jid st kwargs) ! i) = row_id (rows db ! i)
    \<and> job_id (rows (update_job_status db jid st kwargs) ! i) = jid
    \<and> device_id (rows (update_job_status db jid st kwargs) ! i) = device_id (rows db ! i)
    \<and> device_arn (rows (update_job_status db jid st kwargs) ! i) = device_arn (rows db ! i)
    \<and> user_name (rows (update_job_status db jid st kwargs) ! i) = user_name (rows db ! i)
    \<and> user_message (rows (update_job_status db jid st kwargs) ! i) = user_message (rows db ! i)
    \<and> created_at (rows (update_job_status db jid st kwargs) ! i) = created_at (rows db ! i)
    \<and> (\<forall>key v. (key, v) \<in> set kwargs \<and> key \<in> set recognised_fields \<longrightarrow>
          get_column key (rows (update_job_status db jid st kwargs) ! i) = v)
    \<and> (\<forall>key. key \<notin> fst ` set kwargs \<longrightarrow>
          get_column key (rows (update_job_status db jid st kwargs) ! i) = get_column key (rows db ! i))
    \<and> (\<forall>j < length (rows db). job_id (rows db ! j) \<noteq> jid \<longrightarrow>
          rows (update_job_status db jid st kwargs) ! j = rows db ! j)
    \<and> update_job_status db jid st kwargs = update_job_status db jid st (set_clauses kwargs)"
proof -
  let ?db = "update_job_status db jid st kwargs"
  have row: "rows ?db ! i = run_update st (set_clauses kwargs) (rows db ! i)"
    using i jid by (simp add: update_job_status_def)
  have others: "\<forall>j < length (rows db). job_id (rows db ! j) \<noteq> jid \<longrightarrow> rows ?db ! j = rows db ! j"
    by (simp add: update_job_status_def)
  have ignored: "?db = update_job_status db jid st (set_clauses kwargs)"
    by (simp add: update_job_status_def set_clauses_idem)
  have len: "length (rows ?db) = length (rows db)" "seq ?db = seq db"
    by (simp_all add: update_job_status_def)
  have fr: "status (rows ?db ! i) = st"
    "row_id (rows ?db ! i) = row_id (rows db ! i)"
    "job_id (rows ?db ! i) = jid"
    "device_id (rows ?db ! i) = device_id (rows db ! i)"
    "device_arn (rows ?db ! i) = device_arn (rows db ! i)"
    "user_name (rows ?db ! i) = user_name (rows db ! i)"
    "user_message (rows ?db ! i) = user_message (rows db ! i)"
    "created_at (rows ?db ! i) = created_at (rows db ! i)"
    using run_update_frame [of st "set_clauses kwargs" "rows db ! i"] jid
    by (simp_all add: row)
  have named: "\<forall>key v. (key, v) \<in> set kwargs \<and> key \<in> set recognised_fields \<longrightarrow>
      get_column key (rows ?db ! i) = v"
    using run_update_named [OF dict] by (simp add: row)
  have unnamed: "\<forall>key. key \<notin> fst ` set kwargs \<longrightarrow>
      get_column key (rows ?db ! i) = get_column key (rows db ! i)"
    using run_update_unnamed by (simp add: row)
  from len fr named unnamed others ignored show ?thesis
    by (intro conjI)
qed

theorem update_job_status_frame_witness:
  "1 < length (rows frame_db)
   \<and> job_id (rows frame_db ! 1) = ''qjob_1700000000_00ff00ff00ff00ff''
   \<and> status (rows frame_db ! 1) \<notin> {''completed'', ''failed''}
   \<and> distinct (map fst frame_kwargs)
   \<and> status (rows (update_job_status frame_db ''qjob_1700000000_00ff00ff00ff00ff''
          ''failed'' frame_kwargs) ! 1) = ''failed''
   \<and> user_name (rows (update_job_status frame_db ''qjob_1700000000_00ff00ff00ff00ff''
          ''failed'' frame_kwargs) ! 1) = ''Alice''
   \<and> get_column ''error_message'' (rows (update_job_status frame_db
          ''qjob_1700000000_00ff00ff00ff00ff'' ''failed'' frame_kwargs) ! 1) = Text ''boom''
   \<and> get_column ''submitted_at'' (rows (update_job_status frame_db
          ''qjob_1700000000_00ff00ff00ff00ff'' ''failed'' frame_kwargs) ! 1)
       = Text ''2024-01-01T10:00:01''
   \<and> rows (update_job_status frame_db ''qjob_1700000000_00ff00ff00ff00ff''
          ''failed'' frame_kwargs) ! 0 = other_row"
proof -
  let ?db = "update_job_status frame_db ''qjob_1700000000_00ff00ff00ff00ff'' ''failed'' frame_kwargs"
  have i: "1 < length (rows frame_db)" by (simp add: frame_db_def)
  have j: "job_id (rows frame_db ! 1) = ''qjob_1700000000_00ff00ff00ff00ff''"
    by (simp add: frame_db_def running_row_def)
  have l: "status (rows frame_db ! 1) \<notin> {''completed'', ''failed''}"
    by (simp add: frame_db_def running_row_def)
  have d: "distinct (map fst frame_kwargs)" by (simp add: frame_kwargs_def)
  have n: "(''error_message'', Text ''boom'') \<in> set frame_kwargs
      \<and> ''error_message'' \<in> set recognised_fields"
    by (simp add: frame_kwargs_def recognised_fields_def)
  have u: "''submitted_at'' \<notin> fst ` set frame_kwargs" by (simp add: frame_kwargs_def)
  have o: "0 < length (rows frame_db)"
      "job_id (rows frame_db ! 0) \<noteq> ''qjob_1700000000_00ff00ff00ff00ff''"
    by (simp_all add: frame_db_def other_row_def)
  have s: "get_column ''submitted_at'' (rows frame_db ! 1) = Text ''2024-01-01T10:00:01''"
    "user_name (rows frame_db ! 1) = ''Alice''" "rows frame_db ! 0 = other_row"
    by (simp_all add: frame_db_def running_row_def get_column_def)
  note t = update_job_status_frame [OF i j l d, of "''failed''"]
  from t have a: "status (rows ?db ! 1) = ''failed''" by (elim conjE)
  from t have b: "user_name (rows ?db ! 1) = user_name (rows frame_db ! 1)" by (elim conjE)
  from t have c: "\<forall>key v. (key, v) \<in> set frame_kwargs \<and> key \<in> set recognised_fields \<longrightarrow>
          get_column key (rows ?db ! 1) = v" by (elim conjE)
  from t have e: "\<forall>key. key \<notin> fst ` set frame_kwargs \<longrightarrow>
          get_column key (rows ?db ! 1) = get_column key (rows frame_db ! 1)" by (elim conjE)
  from t have f: "\<forall>j < length (rows frame_db). job_id (rows frame_db ! j) \<noteq> ''qjob_1700000000_00ff00ff00ff00ff'' \<longrightarrow>
          rows ?db ! j = rows frame_db ! j" by (elim conjE)
  from c n have c': "get_column ''error_message'' (rows ?db ! 1) = Text ''boom''" by blast
  from e u have e': "get_column ''submitted_at'' (rows ?db ! 1) = Text ''2024-01-01T10:00:01''"
    unfolding s(1) [symmetric] by blast
  from f o have f': "rows ?db ! 0 = other_row" unfolding s(3) [symmetric] by blast
  from i j l d a b [unfolded s(2)] c' e' f' show ?thesis by (intro conjI)
qed

section \<open>The job table: unknown and finished jobs\<close>

lemma update_unknown: "jid \<notin> job_id ` set (rows db) \<Longrightarrow> update_job_status db jid st kwargs = db"
proof -
  assume "jid \<notin> job_id ` set (rows db)"
  then have "map (\<lambda>r. if job_id r = jid then run_update st (set_clauses kwargs) r else r) (rows db) = rows db"
    by (intro map_idI) auto
  then show ?thesis by (simp add: update_job_status_def)
qed

text \<open>
  A job that is already completed is updated like any other: a late failure report
  replaces its status and writes its error message.
\<close>

theorem terminal_update_counterexample:
  "status (rows done_db ! 0) = ''completed''
   \<and> status (rows (update_job_status done_db ''qjob_1700000000_0123456789abcdef'' ''failed''
        late_kwargs) ! 0) = ''failed''
   \<and> error_message (rows (update_job_status done_db ''qjob_1700000000_0123456789abcdef'' ''failed''
        late_kwargs) ! 0) = Text ''late failure''
   \<and> update_job_status done_db ''qjob_1700000000_0123456789abcdef'' ''failed'' late_kwargs \<noteq> done_db"
proof -
  have a: "rows (update_job_status done_db ''qjob_1700000000_0123456789abcdef'' ''failed'' late_kwargs) ! 0
    = done_row\<lparr>status := ''failed'', completed_at := Text ''2024-01-01T10:09:00'',
         error_message := Text ''late failure''\<rparr>"
    by (simp add: update_job_status_def done_db_def done_row_def late_kwargs_def run_update_def
        set_clauses_def recognised_fields_def set_column_def)
  have b: "status (rows done_db ! 0) = ''completed''" by (simp add: done_db_def done_row_def)
  have c: "status (rows (update_job_status done_db ''qjob_1700000000_0123456789abcdef'' ''failed''
        late_kwargs) ! 0) = ''failed''" unfolding a by simp
  have d: "error_message (rows (update_job_status done_db ''qjob_1700000000_0123456789abcdef'' ''failed''
        late_kwargs) ! 0) = Text ''late failure''" unfolding a by simp
  from b c have "update_job_status done_db ''qjob_1700000000_0123456789abcdef'' ''failed'' late_kwargs \<noteq> done_db"
    by auto
  with b c d show ?thesis by simp
qed

text \<open>
  Claim C1, as the code has it. An update of a job id that no row has leaves the table
  as it is (and nothing is raised: the function has no failing branch). An update of a
  job whose status is \<^verbatim>\<open>completed\<close> or \<^verbatim>\<open>failed\<close> is carried out: the status becomes
  the new one and every recognised column the call names takes the given value.
\<close>

theorem update_job_status_unknown_or_terminal:
  "(jid \<notin> job_id ` set (rows db) \<longrightarrow> update_job_status db jid st kwargs = db)
   \<and> (\<forall>i < length (rows db).
        job_id (rows db ! i) = jid \<and> status (rows db ! i) \<in> {''completed'', ''failed''} \<longrightarrow>
          status (rows (update_job_status db jid st kwargs) ! i) = st
          \<and> (\<forall>key v. distinct (map fst kwargs) \<and> (key, v) \<in> set kwargs
                \<and> key \<in> set recognised_fields \<longrightarrow>
                get_column key (rows (update_job_status db jid st kwargs) ! i) = v))"
proof (intro conjI allI impI)
  assume "jid \<notin> job_id ` set (rows db)"
  then show "update_job_status db jid st kwargs = db" by (rule update_unknown)
next
  fix i
  assume i: "i < length (rows db)"
    and h: "job_id (rows db ! i) = jid \<and> status (rows db ! i) \<in> {''completed'', ''failed''}"
  have row: "rows (update_job_status db jid st kwargs) ! i
      = run_update st (set_clauses kwargs) (rows db ! i)"
    using i h by (simp add: update_job_status_def)
  show "status (rows (update_job_status db jid st kwargs) ! i) = st"
    unfolding row using run_update_frame [of st "set_clauses kwargs" "rows db ! i"] by simp
  fix key v
  assume "distinct (map fst kwargs) \<and> (key, v) \<in> set kwargs \<and> key \<in> set recognised_fields"
  then show "get_column key (rows (update_job_status db jid st kwargs) ! i) = v"
    unfolding row using run_update_named by blast
qed

theorem update_job_status_unknown_or_terminal_witness:
  "''qjob_0_ffff'' \<notin> job_id ` set (rows done_db)
   \<and> update_job_status done_db ''qjob_0_ffff'' ''failed'' late_kwargs = done_db
   \<and> 0 < length (rows done_db)
   \<and> job_id (rows done_db ! 0) = ''qjob_1700000000_0123456789abcdef''
   \<and> status (rows done_db ! 0) \<in> {''completed'', ''failed''}
   \<and> status (rows (update_job_status done_db ''qjob_1700000000_0123456789abcdef'' ''running'' late_kwargs) ! 0) = ''running''"
proof -
  have u: "''qjob_0_ffff'' \<notin> job_id ` set (rows done_db)" by (simp add: done_db_def done_row_def)
  have i: "0 < length (rows done_db)" by (simp add: done_db_def)
  have j: "job_id (rows done_db ! 0) = ''qjob_1700000000_0123456789abcdef''"
    by (simp add: done_db_def done_row_def)
  have t: "status (rows done_db ! 0) \<in> {''completed'', ''failed''}"
    by (simp add: done_db_def done_row_def)
  note a = update_job_status_unknown_or_terminal [of "''qjob_0_ffff''" done_db "''failed''" late_kwargs]
  note b = update_job_status_unknown_or_terminal
     [of "''qjob_1700000000_0123456789abcdef''" done_db "''running''" late_kwargs]
  from a u have a': "update_job_status done_db ''qjob_0_ffff'' ''failed'' late_kwargs = done_db" by blast
  from b i j t have b': "status (rows (update_job_status done_db ''qjob_1700000000_0123456789abcdef'' ''running'' late_kwargs) ! 0) = ''running''"
    by blast
  from u a' i j t b' show ?thesis by (intro conjI)
qed

section \<open>The device catalogue under the public operations\<close>

lemma map_of_add_status:
  "map_of (map (\<lambda>(dev, info). (dev, f dev info)) ds) d = map_option (f d) (map_of ds d)"
  by (induction ds) auto

lemma devices_generate:
  "devices (snd (generate_quantum_random_number md5 svc env dev seed)) = devices svc"
  by (simp add: generate_quantum_random_number_def Let_def split: option.splits sum.splits)

lemma devices_process_device_inline:
  "devices (fst (snd (process_device_inline md5 svc env name response dev info lj dj lr))) = devices svc"
proof -
  obtain r s where g: "generate_quantum_random_number md5
      (svc\<lparr>job_manager := update_job_status (job_manager svc) dj ''running'' []\<rparr>)
      (device_qrn env) dev (name @ '':'' @ response @ '':device:'' @ device_seed_time env) = (r, s)"
    by (cases "generate_quantum_random_number md5
      (svc\<lparr>job_manager := update_job_status (job_manager svc) dj ''running'' []\<rparr>)
      (device_qrn env) dev (name @ '':'' @ response @ '':device:'' @ device_seed_time env)")
  have "devices s = devices svc" using devices_generate [of md5
      "svc\<lparr>job_manager := update_job_status (job_manager svc) dj ''running'' []\<rparr>"
      "device_qrn env" dev "name @ '':'' @ response @ '':device:'' @ device_seed_time env"]
    unfolding g by simp
  then show ?thesis using g
    by (simp add: process_device_inline_def Let_def split: sum.splits)
qed

lemma devices_process_quantum_signature:
  "devices (fst (snd (process_quantum_signature md5 svc env name response dev))) = devices svc"
proof (cases "get_device_info svc dev")
  case None
  then show ?thesis by (simp add: process_quantum_signature_def)
next
  case (Some info)
  show ?thesis
  proof (cases "create_job (job_manager svc) (t1 env) (tok1 env) (now1 env)
             ''local_simulator'' ''local://simulator'' name (response @ ''_local'')")
    case (Inl e)
    then show ?thesis using Some by (simp add: process_quantum_signature_def)
  next
    case (Inr a)
    obtain lj db1 where a: "a = (lj, db1)" by (cases a)
    show ?thesis
    proof (cases "create_job db1 (t2 env) (tok2 env) (now2 env)
             dev (arn info) name (response @ ''_device'')")
      case (Inl e)
      then show ?thesis using Some Inr a by (simp add: process_quantum_signature_def)
    next
      case Inr2: (Inr b)
      obtain dj db2 where b: "b = (dj, db2)" by (cases b)
      let ?svc1 = "svc\<lparr>job_manager := update_job_status db2 lj ''running'' []\<rparr>"
      let ?seed = "name @ '':'' @ response @ '':local:'' @ local_seed_time env"
      obtain r s where g: "generate_quantum_random_number md5 ?svc1 (local_qrn env)
          ''local_simulator'' ?seed = (r, s)"
        by (cases "generate_quantum_random_number md5 ?svc1 (local_qrn env)
          ''local_simulator'' ?seed")
      have s: "devices s = devices svc"
        using devices_generate [of md5 ?svc1 "local_qrn env" "''local_simulator''" ?seed]
        unfolding g by simp
      show ?thesis
      proof (cases r)
        case (Inl e)
        then show ?thesis using Some Inr a Inr2 b g s
          by (simp add: process_quantum_signature_def)
      next
        case Inr3: (Inr n)
        show ?thesis
        proof (cases "async_required info")
          case True
          then show ?thesis using Some Inr a Inr2 b g s Inr3
            by (simp add: process_quantum_signature_def Let_def)
        next
          case False
          then show ?thesis using Some Inr a Inr2 b g s Inr3
            by (simp add: process_quantum_signature_def Let_def devices_process_device_inline)
        qed
      qed
    qed
  qed
qed

lemma devices_mark_failed: "devices (mark_failed svc env jid e) = devices svc"
  by (simp add: mark_failed_def)

lemma devices_background:
  "devices (process_quantum_job_for_signature md5 svc env task) = devices svc"
proof (cases "get_device_info svc (task_device_id task)")
  case None
  then show ?thesis
    by (simp add: process_quantum_job_for_signature_def Let_def devices_mark_failed)
next
  case (Some info)
  let ?svc2 = "simulate_quantum_processing
      (svc\<lparr>job_manager := update_job_status (job_manager svc) (task_job_id task) ''submitted''
                 [(''submitted_at'', Text (bg_submitted_at env)),
                  (''estimated_completion'',
                     Text (estimate_completion_time (bg_iso_after env) info))]\<rparr>)
      (task_job_id task)"
  let ?seed = "task_name task @ '':'' @ task_response task @ '':'' @ bg_seed_time env"
  obtain r s where g: "generate_quantum_random_number md5 ?svc2 (bg_qrn env)
      (task_device_id task) ?seed = (r, s)"
    by (cases "generate_quantum_random_number md5 ?svc2 (bg_qrn env) (task_device_id task) ?seed")
  have s: "devices s = devices svc"
    using devices_generate [of md5 ?svc2 "bg_qrn env" "task_device_id task" ?seed]
    unfolding g by (simp add: simulate_quantum_processing_def)
  show ?thesis using Some g s
    by (cases r) (simp_all add: process_quantum_job_for_signature_def Let_def devices_mark_failed)
qed

text \<open>
  The listing of all devices with their status writes into the stored catalogue: after
  it the stored record of the local simulator has a \<^verbatim>\<open>status\<close> key it did not have.
\<close>

theorem device_record_mutated_counterexample:
  "map_option dev_status (get_device_info offline_service ''local_simulator'') = Some None
   \<and> map_option dev_status
        (get_device_info (snd (get_available_devices offline_service)) ''local_simulator'')
      = Some (Some ''Always Available'')
   \<and> devices (snd (get_available_devices offline_service)) \<noteq> devices offline_service"
proof -
  have a: "map_option dev_status (get_device_info offline_service ''local_simulator'') = Some None"
    by (simp add: get_device_info_def offline_service_def init_service_def initial_devices_def)
  have b: "map_option dev_status
        (get_device_info (snd (get_available_devices offline_service)) ''local_simulator'')
      = Some (Some ''Always Available'')"
    by (simp add: get_device_info_def get_available_devices_def manager_get_available_devices_def
        Let_def map_of_add_status add_status_def offline_service_def init_service_def
        initial_devices_def)
  from a b have "devices (snd (get_available_devices offline_service)) \<noteq> devices offline_service"
    by (auto simp: get_device_info_def)
  with a b show ?thesis by simp
qed

text \<open>
  Claim C8, as the code has it. No operation changes the device ids or any of the ten
  fields a device record is constructed with. \<^verbatim>\<open>EnhancedQuantumService.get_available_devices\<close>
  writes the keys \<^verbatim>\<open>status\<close> and \<^verbatim>\<open>aws_configured\<close> into every stored record and returns
  the stored catalogue; entry creation, the background task and the random number
  generation leave the stored catalogue as it is.
\<close>

theorem device_records_after_operations:
  "map fst (devices (snd (get_available_devices svc))) = map fst (devices svc)
   \<and> fst (get_available_devices svc) = devices (snd (get_available_devices svc))
   \<and> (\<forall>dev info. get_device_info svc dev = Some info \<longrightarrow>
        (\<exists>st cfg. get_device_info (snd (get_available_devices svc)) dev
           = Some (info\<lparr>dev_status := Some st, aws_configured := Some cfg\<rparr>)))
   \<and> (\<forall>dev. get_device_info svc dev = None \<longrightarrow>
        get_device_info (snd (get_available_devices svc)) dev = None)
   \<and> devices (fst (snd (process_quantum_signature md5 svc penv name response dev))) = devices svc
   \<and> devices (process_quantum_job_for_signature md5 svc benv task) = devices svc
   \<and> devices (snd (generate_quantum_random_number md5 svc qenv dev seed)) = devices svc"
proof -
  have ids: "map fst (devices (snd (get_available_devices svc))) = map fst (devices svc)"
    by (simp add: get_available_devices_def manager_get_available_devices_def Let_def
        case_prod_unfold comp_def)
  have same: "fst (get_available_devices svc) = devices (snd (get_available_devices svc))"
    by (simp add: get_available_devices_def Let_def)
  have look: "get_device_info (snd (get_available_devices svc)) d
      = map_option (add_status svc d) (get_device_info svc d)" for d
    by (simp add: get_available_devices_def manager_get_available_devices_def Let_def
        get_device_info_def map_of_add_status)
  have known: "\<forall>d info. get_device_info svc d = Some info \<longrightarrow>
        (\<exists>st cfg. get_device_info (snd (get_available_devices svc)) d
           = Some (info\<lparr>dev_status := Some st, aws_configured := Some cfg\<rparr>))"
    by (auto simp: look add_status_def)
  have unknown: "\<forall>d. get_device_info svc d = None \<longrightarrow>
        get_device_info (snd (get_available_devices svc)) d = None"
    by (simp add: look)
  from ids same known unknown devices_process_quantum_signature devices_background
    devices_generate
  show ?thesis by (intro conjI)
qed

theorem device_records_after_operations_witness:
  "get_device_info offline_service ''ionq_forte'' \<noteq> None
   \<and> map_option arn (get_device_info (snd (get_available_devices offline_service)) ''ionq_forte'')
      = map_option arn (get_device_info offline_service ''ionq_forte'')
   \<and> map_option max_qubits (get_device_info (snd (get_available_devices offline_service)) ''ionq_forte'')
      = Some 32
   \<and> get_device_info offline_service ''nonexistent'' = None
   \<and> get_device_info (snd (get_available_devices offline_service)) ''nonexistent'' = None"
proof -
  note t = device_records_after_operations [of offline_service]
  obtain info where i: "get_device_info offline_service ''ionq_forte'' = Some info"
      and q: "max_qubits info = 32"
    by (simp add: get_device_info_def offline_service_def init_service_def initial_devices_def)
  have n: "get_device_info offline_service ''nonexistent'' = None"
    by (simp add: get_device_info_def offline_service_def init_service_def initial_devices_def)
  from t i obtain st cfg where
    a: "get_device_info (snd (get_available_devices offline_service)) ''ionq_forte''
           = Some (info\<lparr>dev_status := Some st, aws_configured := Some cfg\<rparr>)" by blast
  from t n have b: "get_device_info (snd (get_available_devices offline_service)) ''nonexistent'' = None"
    by blast
  show ?thesis using i q n a b by simp
qed

section \<open>The result cache\<close>

lemma first_call_value:
  "generate_quantum_random_number id_digest offline_service first_qrn ''local_simulator'' alice_seed
   = (Inr 5, offline_service\<lparr>circuit_cache :=
        (circuit_cache offline_service)(id_digest (''local_simulator'' @ ''_'' @ alice_seed) \<mapsto> 5)\<rparr>)"
proof -
  have c: "circuit_cache offline_service (id_digest (''local_simulator'' @ ''_'' @ alice_seed)) = None"
    by (simp add: offline_service_def init_service_def)
  have q: "\<not> py_in ''quera'' ''local_simulator''" by simp
  have d: "get_device_info offline_service ''local_simulator''
      = Some (snd (hd initial_devices))"
    by (simp add: get_device_info_def offline_service_def init_service_def initial_devices_def)
  have e: "execute_on_device offline_service (circuit_runs first_qrn) (digest first_qrn)
      ''local_simulator'' = 5"
    by (simp add: execute_on_device_def run_on_device_def first_qrn_def)
  show ?thesis
    unfolding generate_quantum_random_number_def Let_def c d e using q by simp
qed

text \<open>
  A first call computes and caches 5; a second call with the same device and seed, made
  when the clock reads 1700000000, returns 5 again.
\<close>

theorem cache_hit_same_value_counterexample:
  "fst (generate_quantum_random_number id_digest offline_service first_qrn
          ''local_simulator'' alice_seed) = Inr 5
   \<and> fst (generate_quantum_random_number id_digest
          (snd (generate_quantum_random_number id_digest offline_service first_qrn
                  ''local_simulator'' alice_seed))
          later_qrn ''local_simulator'' alice_seed) = Inr 5
   \<and> clock first_qrn < clock later_qrn"
proof -
  have a: "(5 + clock later_qrn) mod 1000 = 5" by (simp add: later_qrn_def)
  have b: "clock first_qrn < clock later_qrn" by (simp add: first_qrn_def later_qrn_def)
  show ?thesis
    unfolding first_call_value using b
    by (simp add: generate_quantum_random_number_def Let_def a)
qed

lemma mod_1000_same:
  "((b + c) mod 1000 = (b + c') mod 1000) = (c mod 1000 = c' mod 1000)" for b c c' :: int
  by (simp add: mod_eq_dvd_iff)

lemma mod_1000_fixed:
  "((b + c) mod 1000 = b) = (0 \<le> b \<and> b < 1000 \<and> c mod 1000 = 0)" for b c :: int
proof
  assume e: "(b + c) mod 1000 = b"
  have "0 \<le> (b + c) mod 1000" and "(b + c) mod 1000 < 1000" by simp_all
  with e have r: "0 \<le> b" "b < 1000" by simp_all
  then have "b mod 1000 = b" by simp
  with e have "(b + c) mod 1000 = (b + 0) mod 1000" by simp
  then have "c mod 1000 = 0 mod 1000" unfolding mod_1000_same .
  with r show "0 \<le> b \<and> b < 1000 \<and> c mod 1000 = 0" by simp
next
  assume h: "0 \<le> b \<and> b < 1000 \<and> c mod 1000 = 0"
  then have "c mod 1000 = 0 mod 1000" by simp
  then have "(b + c) mod 1000 = (b + 0) mod 1000" unfolding mod_1000_same .
  with h show "(b + c) mod 1000 = b" by simp
qed

text \<open>
  Claim C7, as the code has it. A call for a cached key returns
  \<^verbatim>\<open>(base + int(time.time())) % 1000\<close> for the memoised base and leaves the cache as it is.
  That value is the base itself exactly when the base lies in 0..999 and the clock reading
  is a multiple of 1000, and two hits return the same value exactly when their clock
  readings are congruent modulo 1000. A first call that stores a result stores the value
  it returns.
\<close>

theorem cache_hit_value:
  "(circuit_cache svc (md5 (dev @ ''_'' @ seed)) = Some base \<longrightarrow>
      generate_quantum_random_number md5 svc env dev seed
        = (Inr ((base + clock env) mod 1000), svc)
      \<and> generate_quantum_random_number md5 svc env' dev seed
        = (Inr ((base + clock env') mod 1000), svc)
      \<and> ((base + clock env) mod 1000 = base
           \<longleftrightarrow> 0 \<le> base \<and> base < 1000 \<and> clock env mod 1000 = 0)
      \<and> ((base + clock env) mod 1000 = (base + clock env') mod 1000
           \<longleftrightarrow> clock env mod 1000 = clock env' mod 1000))
   \<and> (circuit_cache svc (md5 (dev @ ''_'' @ seed)) = None
        \<and> generate_quantum_random_number md5 svc env dev seed = (Inr n, svc')
        \<and> circuit_cache svc' (md5 (dev @ ''_'' @ seed)) \<noteq> None \<longrightarrow>
      circuit_cache svc' (md5 (dev @ ''_'' @ seed)) = Some n)"
proof (intro conjI impI)
  assume h: "circuit_cache svc (md5 (dev @ ''_'' @ seed)) = Some base"
  show "generate_quantum_random_number md5 svc env dev seed
        = (Inr ((base + clock env) mod 1000), svc)"
    unfolding generate_quantum_random_number_def Let_def h by simp
  show "generate_quantum_random_number md5 svc env' dev seed
        = (Inr ((base + clock env') mod 1000), svc)"
    unfolding generate_quantum_random_number_def Let_def h by simp
  show "((base + clock env) mod 1000 = base)
      = (0 \<le> base \<and> base < 1000 \<and> clock env mod 1000 = 0)"
    by (rule mod_1000_fixed)
  show "((base + clock env) mod 1000 = (base + clock env') mod 1000)
      = (clock env mod 1000 = clock env' mod 1000)"
    by (rule mod_1000_same)
next
  assume h: "circuit_cache svc (md5 (dev @ ''_'' @ seed)) = None
        \<and> generate_quantum_random_number md5 svc env dev seed = (Inr n, svc')
        \<and> circuit_cache svc' (md5 (dev @ ''_'' @ seed)) \<noteq> None"
  then show "circuit_cache svc' (md5 (dev @ ''_'' @ seed)) = Some n"
    by (auto simp: generate_quantum_random_number_def Let_def
        split: if_splits sum.splits option.splits)
qed

theorem cache_hit_value_witness:
  "circuit_cache warm_service (id_digest (''local_simulator'' @ ''_'' @ alice_seed)) = Some 5
   \<and> generate_quantum_random_number id_digest warm_service first_qrn ''local_simulator'' alice_seed
       = (Inr 4, warm_service)
   \<and> generate_quantum_random_number id_digest warm_service later_qrn ''local_simulator'' alice_seed
       = (Inr 5, warm_service)"
proof -
  have h: "circuit_cache warm_service (id_digest (''local_simulator'' @ ''_'' @ alice_seed)) = Some 5"
    by (simp add: warm_service_def)
  note t = cache_hit_value [of warm_service id_digest "''local_simulator''" alice_seed 5
      first_qrn later_qrn]
  from t h have a: "generate_quantum_random_number id_digest warm_service first_qrn
      ''local_simulator'' alice_seed = (Inr ((5 + clock first_qrn) mod 1000), warm_service)"
    by blast
  from t h have b: "generate_quantum_random_number id_digest warm_service later_qrn
      ''local_simulator'' alice_seed = (Inr ((5 + clock later_qrn) mod 1000), warm_service)"
    by blast
  have c: "(5 + clock first_qrn) mod 1000 = 4" "(5 + clock later_qrn) mod 1000 = 5"
    by (simp_all add: first_qrn_def later_qrn_def)
  from h a b show ?thesis unfolding c by (intro conjI)
qed

section \<open>An unknown device\<close>

text \<open>
  An entry for a device the catalogue does not have is refused before any job is
  created: the table is as empty after the call as before it.
\<close>

theorem unknown_device_no_job_counterexample:
  "process_quantum_signature id_digest offline_service alice_env ''Alice'' ''Hello''
       ''no_such_device''
     = (Failure ''Unknown quantum device: no_such_device'', offline_service, [])
   \<and> rows (job_manager offline_service) = []"
proof -
  have n: "get_device_info offline_service ''no_such_device'' = None"
    by (simp add: get_device_info_def offline_service_def init_service_def initial_devices_def)
  have e: "rows (job_manager offline_service) = []"
    by (simp add: offline_service_def init_service_def empty_db_def)
  show ?thesis unfolding process_quantum_signature_def n using e by simp
qed

text \<open>
  Claim C4, as the code has it. For a device id unknown to the catalogue the call
  answers at once with the failure \<^verbatim>\<open>Unknown quantum device: ...\<close>. The device is looked
  up before any job is created: the service state, the job table with it, is unchanged,
  so no local job exists for this call, and no background task is started.
\<close>

theorem unknown_device_fails_first:
  "get_device_info svc dev = None \<Longrightarrow>
   process_quantum_signature md5 svc env name response dev
     = (Failure (''Unknown quantum device: '' @ dev), svc, [])"
  by (simp add: process_quantum_signature_def)

theorem unknown_device_fails_first_witness:
  "get_device_info warm_service ''rigetti_ankaa'' = None
   \<and> process_quantum_signature id_digest warm_service alice_env ''Bob'' ''Hi'' ''rigetti_ankaa''
     = (Failure ''Unknown quantum device: rigetti_ankaa'', warm_service, [])"
proof -
  have n: "get_device_info warm_service ''rigetti_ankaa'' = None"
    by (simp add: get_device_info_def warm_service_def offline_service_def init_service_def
        initial_devices_def)
  from unknown_device_fails_first [OF n, of id_digest alice_env "''Bob''" "''Hi''"] n
  show ?thesis by simp
qed

section \<open>Entry creation: the two jobs\<close>

lemma ids_update_job_status:
  "map job_id (rows (update_job_status db jid st kwargs)) = map job_id (rows db)"
  "map device_id (rows (update_job_status db jid st kwargs)) = map device_id (rows db)"
  using run_update_frame [of st "set_clauses kwargs"]
  by (simp_all add: update_job_status_def comp_def)

lemma job_manager_generate:
  "job_manager (snd (generate_quantum_random_number md5 svc env dev seed)) = job_manager svc"
  by (simp add: generate_quantum_random_number_def Let_def split: option.splits sum.splits)

lemma lookup_generate:
  "get_device_info (snd (generate_quantum_random_number md5 svc env dev seed)) d
     = get_device_info svc d"
  using devices_generate [of md5 svc env dev seed] by (simp add: get_device_info_def)

lemma generate_known:
  "get_device_info svc dev = Some info \<Longrightarrow>
   \<exists>n. fst (generate_quantum_random_number md5 svc env dev seed) = Inr n"
  by (simp add: generate_quantum_random_number_def Let_def split: option.splits sum.splits)

lemma create_job_result:
  "create_job db t tok now d a u m = Inr (jid, db') \<Longrightarrow>
   jid = new_job_id t tok \<and> jid \<notin> job_id ` set (rows db)
   \<and> map job_id (rows db') = map job_id (rows db) @ [jid]
   \<and> map device_id (rows db') = map device_id (rows db) @ [d]"
  by (auto simp: create_job_def Let_def split: if_splits)

lemma create_job_fresh:
  "new_job_id t tok \<notin> job_id ` set (rows db) \<Longrightarrow>
   \<exists>db'. create_job db t tok now d a u m = Inr (new_job_id t tok, db')"
  by (simp add: create_job_def Let_def)

lemma inline_result:
  assumes "process_device_inline md5 svc env name response dev info lj dj lr = (rep, svc', tasks)"
  shows "map job_id (rows (job_manager svc')) = map job_id (rows (job_manager svc))
    \<and> map device_id (rows (job_manager svc')) = map device_id (rows (job_manager svc))
    \<and> (\<forall>r. rep = Success r \<longrightarrow> local_job_id r = lj \<and> device_job_id r = dj)"
proof -
  let ?svc1 = "svc\<lparr>job_manager := update_job_status (job_manager svc) dj ''running'' []\<rparr>"
  let ?seed = "name @ '':'' @ response @ '':device:'' @ device_seed_time env"
  obtain x s where g: "generate_quantum_random_number md5 ?svc1 (device_qrn env) dev ?seed = (x, s)"
    by (cases "generate_quantum_random_number md5 ?svc1 (device_qrn env) dev ?seed")
  have jm: "job_manager s = update_job_status (job_manager svc) dj ''running'' []"
    using job_manager_generate [of md5 ?svc1 "device_qrn env" dev ?seed] unfolding g by simp
  show ?thesis
  proof (cases x)
    case (Inl e)
    then show ?thesis using assms g jm
      by (auto simp: process_device_inline_def Let_def ids_update_job_status)
  next
    case (Inr n)
    then show ?thesis using assms g jm
      by (auto simp: process_device_inline_def Let_def ids_update_job_status)
  qed
qed

lemma process_steps:
  assumes "get_device_info svc dev = Some info"
    and "create_job (job_manager svc) (t1 env) (tok1 env) (now1 env)
           ''local_simulator'' ''local://simulator'' name (response @ ''_local'') = Inr (lj, db1)"
    and "create_job db1 (t2 env) (tok2 env) (now2 env)
           dev (arn info) name (response @ ''_device'') = Inr (dj, db2)"
    and "generate_quantum_random_number md5
           (svc\<lparr>job_manager := update_job_status db2 lj ''running'' []\<rparr>) (local_qrn env)
           ''local_simulator'' (name @ '':'' @ response @ '':local:'' @ local_seed_time env)
         = (Inr q, svc2)"
  shows "process_quantum_signature md5 svc env name response dev =
     (let local_res =
            \<lparr>res_quantum_number = q,
             res_entanglement_data =
               create_bell_state_circuit svc2 (local_bell env) ''local_simulator'',
             res_device_name = ''Local Simulator'', res_device_type = ''simulator'',
             res_processing_time_ms = Some (local_duration_ms env)\<rparr>;
          svc3 = svc2\<lparr>job_manager :=
            update_job_status (job_manager svc2) lj ''completed''
              [(''completed_at'', Text (local_end env)), (''result_data'', JsonText local_res)]\<rparr>
      in if async_required info then
           (Success
              \<lparr>dual_mode = True, quantum_number = q,
               entanglement_data =
                 create_bell_state_circuit svc2 (local_bell env) ''local_simulator'',
               local_job_id = lj, device_job_id = dj,
               device_info =
                 \<lparr>info_name = dev_name info, info_device_job_id = dj,
                  info_local_job_id = lj, info_type = Some (dev_type info),
                  info_estimated_completion =
                    Some (estimate_completion_time (iso_after env) info)\<rparr>,
               local_result = local_res, device_result = None\<rparr>,
            svc3,
            [\<lparr>task_job_id = dj, task_device_id = dev,
              task_name = name, task_response = response\<rparr>])
         else process_device_inline md5 svc3 env name response dev info lj dj local_res)"
  using assms by (simp add: process_quantum_signature_def Let_def)

lemma process_success_jobs:
  assumes ok: "process_quantum_signature md5 svc env name response dev = (Success r, svc', tasks)"
  shows "device_job_id r \<noteq> local_job_id r
    \<and> map job_id (rows (job_manager svc'))
        = map job_id (rows (job_manager svc)) @ [local_job_id r, device_job_id r]
    \<and> map device_id (rows (job_manager svc'))
        = map device_id (rows (job_manager svc)) @ [''local_simulator'', dev]"
proof (cases "get_device_info svc dev")
  case None
  then show ?thesis using ok by (simp add: process_quantum_signature_def)
next
  case (Some info)
  show ?thesis
  proof (cases "create_job (job_manager svc) (t1 env) (tok1 env) (now1 env)
             ''local_simulator'' ''local://simulator'' name (response @ ''_local'')")
    case (Inl e)
    then show ?thesis using Some ok by (simp add: process_quantum_signature_def)
  next
    case (Inr a)
    obtain lj db1 where a: "a = (lj, db1)" by (cases a)
    note c1 = Inr [unfolded a]
    note r1 = create_job_result [OF c1]
    show ?thesis
    proof (cases "create_job db1 (t2 env) (tok2 env) (now2 env)
             dev (arn info) name (response @ ''_device'')")
      case (Inl e)
      then show ?thesis using Some c1 ok by (simp add: process_quantum_signature_def)
    next
      case Inr2: (Inr b)
      obtain dj db2 where b: "b = (dj, db2)" by (cases b)
      note c2 = Inr2 [unfolded b]
      note r2 = create_job_result [OF c2]
      have ne: "dj \<noteq> lj" using r1 r2 by (metis in_set_conv_decomp list.set_map)
      have ids2: "map job_id (rows db2) = map job_id (rows (job_manager svc)) @ [lj, dj]"
        "map device_id (rows db2) = map device_id (rows (job_manager svc)) @ [''local_simulator'', dev]"
        using r1 r2 by simp_all
      let ?svc1 = "svc\<lparr>job_manager := update_job_status db2 lj ''running'' []\<rparr>"
      let ?seed = "name @ '':'' @ response @ '':local:'' @ local_seed_time env"
      obtain x svc2 where g: "generate_quantum_random_number md5 ?svc1 (local_qrn env)
          ''local_simulator'' ?seed = (x, svc2)"
        by (cases "generate_quantum_random_number md5 ?svc1 (local_qrn env)
          ''local_simulator'' ?seed")
      have jm: "job_manager svc2 = update_job_status db2 lj ''running'' []"
        using job_manager_generate [of md5 ?svc1 "local_qrn env" "''local_simulator''" ?seed]
        unfolding g by simp
      show ?thesis
      proof (cases x)
        case (Inl e)
        then show ?thesis using Some c1 c2 g ok by (simp add: process_quantum_signature_def)
      next
        case Inr3: (Inr q)
        note st = process_steps [OF Some c1 c2 g [unfolded Inr3]]
        show ?thesis
        proof (cases "async_required info")
          case True
          then show ?thesis using st ok ne ids2 jm
            by (auto simp: Let_def ids_update_job_status)
        next
          case False
          let ?lr = "\<lparr>res_quantum_number = q,
             res_entanglement_data =
               create_bell_state_circuit svc2 (local_bell env) ''local_simulator'',
             res_device_name = ''Local Simulator'', res_device_type = ''simulator'',
             res_processing_time_ms = Some (local_duration_ms env)\<rparr>"
          let ?svc3 = "svc2\<lparr>job_manager :=
            update_job_status (job_manager svc2) lj ''completed''
              [(''completed_at'', Text (local_end env)), (''result_data'', JsonText ?lr)]\<rparr>"
          have "process_device_inline md5 ?svc3 env name response dev info lj dj ?lr
              = (Success r, svc', tasks)"
            using st ok False by (simp add: Let_def)
          from inline_result [OF this] show ?thesis using ne ids2 jm
            by (simp add: ids_update_job_status)
        qed
      qed
    qed
  qed
qed

lemma update_fresh_prefix:
  assumes "jid \<notin> job_id ` set old" and "job_id l = jid" and "job_id d \<noteq> jid"
    and "rows db = old @ [l, d]"
  shows "rows (update_job_status db jid st kwargs) = old @ [run_update st (set_clauses kwargs) l, d]"
proof -
  have "map (\<lambda>r. if job_id r = jid then run_update st (set_clauses kwargs) r else r) old = old"
    using assms(1) by (intro map_idI) auto
  then show ?thesis using assms(2,3,4) by (simp add: update_job_status_def)
qed

lemma job_id_run_update: "job_id (run_update st cs r) = job_id r"
  using run_update_frame [of st cs r] by simp

lemma status_run_update: "status (run_update st cs r) = st"
  using run_update_frame [of st cs r] by simp

lemma result_data_completed:
  "result_data (run_update st
      (set_clauses [(''completed_at'', Text ts), (''result_data'', JsonText res)]) r) = JsonText res"
  by (simp add: run_update_def set_clauses_def recognised_fields_def set_column_def)

lemma inline_succeeds:
  assumes "get_device_info svc dev = Some info"
  shows "\<exists>r svc'. process_device_inline md5 svc env name response dev info lj dj lr
      = (Success r, svc', [])
    \<and> local_job_id r = lj \<and> device_job_id r = dj \<and> device_result r \<noteq> None"
proof -
  let ?svc1 = "svc\<lparr>job_manager := update_job_status (job_manager svc) dj ''running'' []\<rparr>"
  let ?seed = "name @ '':'' @ response @ '':device:'' @ device_seed_time env"
  have "get_device_info ?svc1 dev = Some info" using assms by (simp add: get_device_info_def)
  from generate_known [OF this, of md5 "device_qrn env" ?seed]
  obtain q s where g: "generate_quantum_random_number md5 ?svc1 (device_qrn env) dev ?seed
      = (Inr q, s)"
    by (cases "generate_quantum_random_number md5 ?svc1 (device_qrn env) dev ?seed") auto
  show ?thesis using g by (simp add: process_device_inline_def Let_def)
qed

lemma sync_device_succeeds:
  assumes k: "get_device_info svc dev = Some info"
    and sync: "\<not> async_required info"
    and l: "get_device_info svc ''local_simulator'' = Some li"
    and f1: "new_job_id (t1 env) (tok1 env) \<notin> job_id ` set (rows (job_manager svc))"
    and f2: "new_job_id (t2 env) (tok2 env)
        \<notin> insert (new_job_id (t1 env) (tok1 env)) (job_id ` set (rows (job_manager svc)))"
  shows "\<exists>r svc'. process_quantum_signature md5 svc env name response dev = (Success r, svc', [])
    \<and> local_job_id r = new_job_id (t1 env) (tok1 env)
    \<and> device_job_id r = new_job_id (t2 env) (tok2 env)
    \<and> device_result r \<noteq> None"
proof -
  let ?lj = "new_job_id (t1 env) (tok1 env)"
  let ?dj = "new_job_id (t2 env) (tok2 env)"
  from create_job_fresh [OF f1] obtain db1 where
    c1: "create_job (job_manager svc) (t1 env) (tok1 env) (now1 env)
      ''local_simulator'' ''local://simulator'' name (response @ ''_local'') = Inr (?lj, db1)"
    by blast
  have "set (map job_id (rows db1)) = insert ?lj (job_id ` set (rows (job_manager svc)))"
    using create_job_result [OF c1] by simp
  then have "?dj \<notin> job_id ` set (rows db1)" using f2 by simp
  from create_job_fresh [OF this] obtain db2 where
    c2: "create_job db1 (t2 env) (tok2 env) (now2 env)
      dev (arn info) name (response @ ''_device'') = Inr (?dj, db2)"
    by blast
  let ?svc1 = "svc\<lparr>job_manager := update_job_status db2 ?lj ''running'' []\<rparr>"
  let ?seed = "name @ '':'' @ response @ '':local:'' @ local_seed_time env"
  have "get_device_info ?svc1 ''local_simulator'' = Some li"
    using l by (simp add: get_device_info_def)
  from generate_known [OF this, of md5 "local_qrn env" ?seed]
  obtain q svc2 where g: "generate_quantum_random_number md5 ?svc1 (local_qrn env)
      ''local_simulator'' ?seed = (Inr q, svc2)"
    by (cases "generate_quantum_random_number md5 ?svc1 (local_qrn env)
      ''local_simulator'' ?seed") auto
  have "get_device_info svc2 dev = get_device_info ?svc1 dev"
    using lookup_generate [of md5 ?svc1 "local_qrn env" "''local_simulator''" ?seed dev]
    unfolding g by simp
  then have k2: "get_device_info svc2 dev = Some info" using k by (simp add: get_device_info_def)
  let ?lr = "\<lparr>res_quantum_number = q,
     res_entanglement_data = create_bell_state_circuit svc2 (local_bell env) ''local_simulator'',
     res_device_name = ''Local Simulator'', res_device_type = ''simulator'',
     res_processing_time_ms = Some (local_duration_ms env)\<rparr>"
  let ?svc3 = "svc2\<lparr>job_manager :=
      update_job_status (job_manager svc2) ?lj ''completed''
        [(''completed_at'', Text (local_end env)), (''result_data'', JsonText ?lr)]\<rparr>"
  have k3: "get_device_info ?svc3 dev = Some info" using k2 by (simp add: get_device_info_def)
  have p: "process_quantum_signature md5 svc env name response dev
      = process_device_inline md5 ?svc3 env name response dev info ?lj ?dj ?lr"
    using process_steps [OF k c1 c2 g] sync by (simp add: Let_def)
  from inline_succeeds [OF k3, of md5 env name response ?lj ?dj ?lr] show ?thesis
    unfolding p by blast
qed

text \<open>
  Claim C6. The selected device is in the catalogue and needs an asynchronous run; the
  local simulator is in the catalogue; the two job ids drawn from the clock and the
  entropy source are new, as the \<^verbatim>\<open>UNIQUE\<close> column requires. Then the call succeeds and
  returns without running the background task, which is handed over as the only new
  task: the reply's number and vector are those of the local result, the local job is
  the last but one row, completed, with that result as its data; the device job is the
  last row, still in status \<^verbatim>\<open>created\<close> and without data, and its id is in the reply.
\<close>

theorem async_device_returns_pending_job:
  assumes k: "get_device_info svc dev = Some info"
    and async: "async_required info"
    and l: "get_device_info svc ''local_simulator'' = Some li"
    and f1: "new_job_id (t1 env) (tok1 env) \<notin> job_id ` set (rows (job_manager svc))"
    and f2: "new_job_id (t2 env) (tok2 env)
        \<notin> insert (new_job_id (t1 env) (tok1 env)) (job_id ` set (rows (job_manager svc)))"
  shows "\<exists>r svc' lrow drow.
      process_quantum_signature md5 svc env name response dev
        = (Success r, svc',
           [\<lparr>task_job_id = device_job_id r, task_device_id = dev,
             task_name = name, task_response = response\<rparr>])
      \<and> local_job_id r = new_job_id (t1 env) (tok1 env)
      \<and> device_job_id r = new_job_id (t2 env) (tok2 env)
      \<and> quantum_number r = res_quantum_number (local_result r)
      \<and> entanglement_data r = res_entanglement_data (local_result r)
      \<and> device_result r = None
      \<and> rows (job_manager svc') = rows (job_manager svc) @ [lrow, drow]
      \<and> job_id lrow = local_job_id r \<and> status lrow = ''completed''
      \<and> result_data lrow = JsonText (local_result r)
      \<and> job_id drow = device_job_id r \<and> device_id drow = dev
      \<and> status drow = ''created'' \<and> result_data drow = Null"
proof -
  let ?db = "job_manager svc"
  let ?lj = "new_job_id (t1 env) (tok1 env)"
  let ?dj = "new_job_id (t2 env) (tok2 env)"
  define l0 where "l0 =
    \<lparr>row_id = Suc (seq ?db), job_id = ?lj, signature_id = Null,
     device_id = ''local_simulator'', device_arn = ''local://simulator'', user_name = name,
     user_message = response @ ''_local'', status = ''created'', created_at = Text (now1 env),
     submitted_at = Null, completed_at = Null, result_data = Null,
     error_message = Null, estimated_completion = Null\<rparr>"
  define db1 where "db1 = ?db\<lparr>rows := rows ?db @ [l0], seq := Suc (seq ?db)\<rparr>"
  define d0 where "d0 =
    \<lparr>row_id = Suc (seq db1), job_id = ?dj, signature_id = Null,
     device_id = dev, device_arn = arn info, user_name = name,
     user_message = response @ ''_device'', status = ''created'', created_at = Text (now2 env),
     submitted_at = Null, completed_at = Null, result_data = Null,
     error_message = Null, estimated_completion = Null\<rparr>"
  define db2 where "db2 = db1\<lparr>rows := rows db1 @ [d0], seq := Suc (seq db1)\<rparr>"
  have c1: "create_job ?db (t1 env) (tok1 env) (now1 env)
      ''local_simulator'' ''local://simulator'' name (response @ ''_local'') = Inr (?lj, db1)"
    using f1 by (simp add: create_job_def Let_def l0_def db1_def)
  have "?dj \<notin> job_id ` set (rows db1)" using f2 by (simp add: db1_def l0_def)
  then have c2: "create_job db1 (t2 env) (tok2 env) (now2 env)
      dev (arn info) name (response @ ''_device'') = Inr (?dj, db2)"
    by (simp add: create_job_def Let_def d0_def db2_def)
  have rows2: "rows db2 = rows ?db @ [l0, d0]" by (simp add: db2_def db1_def)
  have ne: "job_id d0 \<noteq> ?lj" using f2 by (simp add: d0_def)
  have jl: "job_id l0 = ?lj" by (simp add: l0_def)
  let ?svc1 = "svc\<lparr>job_manager := update_job_status db2 ?lj ''running'' []\<rparr>"
  let ?seed = "name @ '':'' @ response @ '':local:'' @ local_seed_time env"
  have "get_device_info ?svc1 ''local_simulator'' = Some li"
    using l by (simp add: get_device_info_def)
  from generate_known [OF this, of md5 "local_qrn env" ?seed]
  obtain q svc2 where g: "generate_quantum_random_number md5 ?svc1 (local_qrn env)
      ''local_simulator'' ?seed = (Inr q, svc2)"
    by (cases "generate_quantum_random_number md5 ?svc1 (local_qrn env)
      ''local_simulator'' ?seed") auto
  have jm: "job_manager svc2 = update_job_status db2 ?lj ''running'' []"
    using job_manager_generate [of md5 ?svc1 "local_qrn env" "''local_simulator''" ?seed]
    unfolding g by simp
  define lr where "lr =
    \<lparr>res_quantum_number = q,
     res_entanglement_data = create_bell_state_circuit svc2 (local_bell env) ''local_simulator'',
     res_device_name = ''Local Simulator'', res_device_type = ''simulator'',
     res_processing_time_ms = Some (local_duration_ms env)\<rparr>"
  define kw where "kw = [(''completed_at'', Text (local_end env)), (''result_data'', JsonText lr)]"
  define svc3 where "svc3 = svc2\<lparr>job_manager := update_job_status (job_manager svc2) ?lj ''completed'' kw\<rparr>"
  define r where "r =
    \<lparr>dual_mode = True, quantum_number = q,
     entanglement_data = create_bell_state_circuit svc2 (local_bell env) ''local_simulator'',
     local_job_id = ?lj, device_job_id = ?dj,
     device_info =
       \<lparr>info_name = dev_name info, info_device_job_id = ?dj,
        info_local_job_id = ?lj, info_type = Some (dev_type info),
        info_estimated_completion = Some (estimate_completion_time (iso_after env) info)\<rparr>,
     local_result = lr, device_result = None\<rparr>"
  define lrow where "lrow = run_update ''completed'' (set_clauses kw)
      (run_update ''running'' (set_clauses []) l0)"
  have p: "process_quantum_signature md5 svc env name response dev
      = (Success r, svc3,
         [\<lparr>task_job_id = device_job_id r, task_device_id = dev,
           task_name = name, task_response = response\<rparr>])"
    using process_steps [OF k c1 c2 g] async
    by (simp add: Let_def r_def svc3_def lr_def kw_def)
  have rows_a: "rows (update_job_status db2 ?lj ''running'' [])
      = rows ?db @ [run_update ''running'' (set_clauses []) l0, d0]"
    using f1 jl ne rows2 by (rule update_fresh_prefix)
  have jl': "job_id (run_update ''running'' (set_clauses []) l0) = ?lj"
    by (simp add: job_id_run_update jl)
  have rows_b: "rows (job_manager svc3) = rows ?db @ [lrow, d0]"
    unfolding svc3_def jm lrow_def
    using update_fresh_prefix [OF f1 jl' ne rows_a, of "''completed''" kw]
    by simp
  have f: "local_job_id r = ?lj" "device_job_id r = ?dj"
    "quantum_number r = res_quantum_number (local_result r)"
    "entanglement_data r = res_entanglement_data (local_result r)"
    "device_result r = None"
    by (simp_all add: r_def lr_def)
  have lrow: "job_id lrow = local_job_id r" "status lrow = ''completed''"
    "result_data lrow = JsonText (local_result r)"
    unfolding lrow_def kw_def
    by (simp_all add: job_id_run_update status_run_update result_data_completed jl r_def)
  have drow: "job_id d0 = device_job_id r" "device_id d0 = dev" "status d0 = ''created''"
    "result_data d0 = Null"
    by (simp_all add: d0_def r_def)
  from p f rows_b lrow drow show ?thesis by blast
qed

text \<open>
  An entry for the local simulator itself creates two jobs with two different ids.
\<close>

theorem same_backend_second_job_counterexample:
  "job_ids_of (fst (process_quantum_signature id_digest offline_service alice_env
        ''Alice'' ''Hello'' ''local_simulator''))
     = Some (new_job_id 1700000000 ''aaaaaaaaaaaaaaaa'', new_job_id 1700000000 ''bbbbbbbbbbbbbbbb'')
   \<and> new_job_id 1700000000 ''aaaaaaaaaaaaaaaa'' \<noteq> new_job_id 1700000000 ''bbbbbbbbbbbbbbbb''
   \<and> length (rows (job_manager offline_service)) = 0
   \<and> length (rows (job_manager (fst (snd (process_quantum_signature id_digest offline_service
        alice_env ''Alice'' ''Hello'' ''local_simulator''))))) = 2"
proof -
  have k: "get_device_info offline_service ''local_simulator'' = Some (snd (hd initial_devices))"
    by (simp add: get_device_info_def offline_service_def init_service_def initial_devices_def)
  have sync: "\<not> async_required (snd (hd initial_devices))" by (simp add: initial_devices_def)
  have e: "rows (job_manager offline_service) = []"
    by (simp add: offline_service_def init_service_def empty_db_def)
  have ne: "new_job_id 1700000000 ''aaaaaaaaaaaaaaaa'' \<noteq> new_job_id 1700000000 ''bbbbbbbbbbbbbbbb''"
    by (simp add: new_job_id_def)
  have env: "t1 alice_env = 1700000000" "tok1 alice_env = ''aaaaaaaaaaaaaaaa''"
    "t2 alice_env = 1700000000" "tok2 alice_env = ''bbbbbbbbbbbbbbbb''"
    by (simp_all add: alice_env_def)
  have f1: "new_job_id (t1 alice_env) (tok1 alice_env)
      \<notin> job_id ` set (rows (job_manager offline_service))" by (simp add: e)
  have f2: "new_job_id (t2 alice_env) (tok2 alice_env)
      \<notin> insert (new_job_id (t1 alice_env) (tok1 alice_env))
          (job_id ` set (rows (job_manager offline_service)))"
    unfolding env e using ne by simp
  from sync_device_succeeds [OF k sync k f1 f2, of id_digest "''Alice''" "''Hello''"]
  obtain r svc' where p: "process_quantum_signature id_digest offline_service alice_env
        ''Alice'' ''Hello'' ''local_simulator'' = (Success r, svc', [])"
    and ids: "local_job_id r = new_job_id (t1 alice_env) (tok1 alice_env)"
      "device_job_id r = new_job_id (t2 alice_env) (tok2 alice_env)"
    by blast
  have "length (map job_id (rows (job_manager svc'))) = 2"
    using process_success_jobs [OF p] e by simp
  then have n: "length (rows (job_manager svc')) = 2" by simp
  show ?thesis unfolding p using ids n ne e by (simp add: job_ids_of_def env)
qed

text \<open>
  Claim C3, as the code has it. When the selected device is the local simulator itself
  (registered as a device that needs no asynchronous run, the two generated job ids
  being new), the call succeeds with a device result, starts no background task, and
  still creates a second job: the device job id differs from the local job id and
  exactly two rows, both of the local simulator and with these two ids, are added to the
  job table.
\<close>

theorem same_backend_two_jobs:
  assumes l: "get_device_info svc ''local_simulator'' = Some li"
    and sync: "\<not> async_required li"
    and f1: "new_job_id (t1 env) (tok1 env) \<notin> job_id ` set (rows (job_manager svc))"
    and f2: "new_job_id (t2 env) (tok2 env)
        \<notin> insert (new_job_id (t1 env) (tok1 env)) (job_id ` set (rows (job_manager svc)))"
  shows "\<exists>r svc'.
      process_quantum_signature md5 svc env name response ''local_simulator''
        = (Success r, svc', [])
      \<and> device_result r \<noteq> None
      \<and> device_job_id r \<noteq> local_job_id r
      \<and> map job_id (rows (job_manager svc'))
          = map job_id (rows (job_manager svc)) @ [local_job_id r, device_job_id r]
      \<and> map device_id (rows (job_manager svc'))
          = map device_id (rows (job_manager svc)) @ [''local_simulator'', ''local_simulator'']"
proof -
  from sync_device_succeeds [OF l sync l f1 f2, of md5 name response]
  obtain r svc' where p: "process_quantum_signature md5 svc env name response ''local_simulator''
        = (Success r, svc', [])" and d: "device_result r \<noteq> None"
    by blast
  from process_success_jobs [OF p] p d show ?thesis by blast
qed

theorem same_backend_two_jobs_witness:
  "get_device_info warm_service ''local_simulator'' = Some (snd (hd initial_devices))
   \<and> \<not> async_required (snd (hd initial_devices))
   \<and> new_job_id (t1 alice_env) (tok1 alice_env) \<notin> job_id ` set (rows (job_manager warm_service))
   \<and> new_job_id (t2 alice_env) (tok2 alice_env)
        \<notin> insert (new_job_id (t1 alice_env) (tok1 alice_env))
            (job_id ` set (rows (job_manager warm_service)))
   \<and> map device_id (rows (job_manager (fst (snd (process_quantum_signature id_digest
        warm_service alice_env ''Bob'' ''Hi'' ''local_simulator'')))))
       = [''local_simulator'', ''local_simulator'']
   \<and> job_ids_of (fst (process_quantum_signature id_digest warm_service alice_env
        ''Bob'' ''Hi'' ''local_simulator'')) \<noteq> None"
proof -
  have k: "get_device_info warm_service ''local_simulator'' = Some (snd (hd initial_devices))"
    by (simp add: get_device_info_def warm_service_def offline_service_def init_service_def
        initial_devices_def)
  have sync: "\<not> async_required (snd (hd initial_devices))" by (simp add: initial_devices_def)
  have e: "rows (job_manager warm_service) = []"
    by (simp add: warm_service_def offline_service_def init_service_def empty_db_def)
  have f1: "new_job_id (t1 alice_env) (tok1 alice_env)
      \<notin> job_id ` set (rows (job_manager warm_service))" by (simp add: e)
  have f2: "new_job_id (t2 alice_env) (tok2 alice_env)
      \<notin> insert (new_job_id (t1 alice_env) (tok1 alice_env))
          (job_id ` set (rows (job_manager warm_service)))"
    by (simp add: e alice_env_def new_job_id_def)
  from same_backend_two_jobs [OF k sync f1 f2, of id_digest "''Bob''" "''Hi''"]
  obtain r svc' where p: "process_quantum_signature id_digest warm_service alice_env
        ''Bob'' ''Hi'' ''local_simulator'' = (Success r, svc', [])"
    and m: "map device_id (rows (job_manager svc'))
          = map device_id (rows (job_manager warm_service)) @ [''local_simulator'', ''local_simulator'']"
    by blast
  show ?thesis unfolding p using k sync f1 f2 m e by (simp add: job_ids_of_def)
qed

theorem async_device_returns_pending_job_witness:
  "get_device_info offline_service ''ionq_forte'' = Some (snd (initial_devices ! 2))
   \<and> async_required (snd (initial_devices ! 2))
   \<and> get_device_info offline_service ''local_simulator'' = Some (snd (hd initial_devices))
   \<and> new_job_id (t1 alice_env) (tok1 alice_env)
        \<notin> job_id ` set (rows (job_manager offline_service))
   \<and> new_job_id (t2 alice_env) (tok2 alice_env)
        \<notin> insert (new_job_id (t1 alice_env) (tok1 alice_env))
            (job_id ` set (rows (job_manager offline_service)))
   \<and> snd (snd (process_quantum_signature id_digest offline_service alice_env
        ''Alice'' ''Hello'' ''ionq_forte''))
       = [\<lparr>task_job_id = new_job_id 1700000000 ''bbbbbbbbbbbbbbbb'', task_device_id = ''ionq_forte'',
           task_name = ''Alice'', task_response = ''Hello''\<rparr>]
   \<and> map status (rows (job_manager (fst (snd (process_quantum_signature id_digest
        offline_service alice_env ''Alice'' ''Hello'' ''ionq_forte'')))))
       = [''completed'', ''created'']"
proof -
  have k: "get_device_info offline_service ''ionq_forte'' = Some (snd (initial_devices ! 2))"
    by (simp add: get_device_info_def offline_service_def init_service_def initial_devices_def)
  have a: "async_required (snd (initial_devices ! 2))" by (simp add: initial_devices_def)
  have l: "get_device_info offline_service ''local_simulator'' = Some (snd (hd initial_devices))"
    by (simp add: get_device_info_def offline_service_def init_service_def initial_devices_def)
  have e: "rows (job_manager offline_service) = []"
    by (simp add: offline_service_def init_service_def empty_db_def)
  have f1: "new_job_id (t1 alice_env) (tok1 alice_env)
      \<notin> job_id ` set (rows (job_manager offline_service))" by (simp add: e)
  have f2: "new_job_id (t2 alice_env) (tok2 alice_env)
      \<notin> insert (new_job_id (t1 alice_env) (tok1 alice_env))
          (job_id ` set (rows (job_manager offline_service)))"
    by (simp add: e alice_env_def new_job_id_def)
  have env: "t2 alice_env = 1700000000" "tok2 alice_env = ''bbbbbbbbbbbbbbbb''"
    by (simp_all add: alice_env_def)
  from async_device_returns_pending_job [OF k a l f1 f2, of id_digest "''Alice''" "''Hello''"]
  obtain r svc' lrow drow where
    p: "process_quantum_signature id_digest offline_service alice_env ''Alice'' ''Hello''
        ''ionq_forte''
        = (Success r, svc',
           [\<lparr>task_job_id = device_job_id r, task_device_id = ''ionq_forte'',
             task_name = ''Alice'', task_response = ''Hello''\<rparr>])"
    and d: "device_job_id r = new_job_id (t2 alice_env) (tok2 alice_env)"
    and rows: "rows (job_manager svc') = rows (job_manager offline_service) @ [lrow, drow]"
    and st: "status lrow = ''completed''" "status drow = ''created''"
    by blast
  show ?thesis unfolding p using k a l f1 f2 d rows st e by (simp add: env)
qed

section \<open>The background task on an unavailable device\<close>

lemma execute_job_manager:
  "execute_on_device (svc\<lparr>job_manager := jm\<rparr>) env dg dev = execute_on_device svc env dg dev"
  by (simp add: execute_on_device_def run_on_device_def check_device_availability_def
      submit_and_wait_def get_device_info_def)

lemma execute_unavailable:
  assumes "get_device_info svc dev = Some info" and "dev \<noteq> ''local_simulator''"
    and "dev \<in> set (aws_devices svc)" and "aws_session svc"
    and "\<not> check_device_availability svc (choice env) dev"
  shows "execute_on_device svc env dg dev =
     (if ''aws_sv1'' \<in> set (aws_devices svc)
      then (case aws_run env ''aws_sv1'' of Inr n \<Rightarrow> n | Inl e \<Rightarrow> dg mod 1000)
      else dg mod 1000)"
  using assms by (simp add: execute_on_device_def run_on_device_def submit_and_wait_def)

lemma generate_miss:
  assumes "get_device_info svc dev = Some info" and "\<not> py_in ''quera'' dev"
    and "circuit_cache svc (md5 (dev @ ''_'' @ seed)) = None"
  shows "generate_quantum_random_number md5 svc env dev seed =
     (Inr (execute_on_device svc (circuit_runs env) (digest env) dev),
      svc\<lparr>circuit_cache := (circuit_cache svc)(md5 (dev @ ''_'' @ seed) \<mapsto>
        execute_on_device svc (circuit_runs env) (digest env) dev)\<rparr>)"
  unfolding generate_quantum_random_number_def Let_def assms(3) using assms(1,2) by simp

lemma row_update_job_status:
  "i < length (rows db) \<Longrightarrow> job_id (rows db ! i) = jid \<Longrightarrow>
   rows (update_job_status db jid st kwargs) ! i = run_update st (set_clauses kwargs) (rows db ! i)"
  by (simp add: update_job_status_def)

lemma length_update_job_status: "length (rows (update_job_status db jid st kwargs)) = length (rows db)"
  by (simp add: update_job_status_def)

lemma error_message_unnamed:
  "''error_message'' \<notin> fst ` set kwargs \<Longrightarrow>
   error_message (run_update st (set_clauses kwargs) r) = error_message r"
  using run_update_unnamed [of "''error_message''" kwargs st r] by (simp add: get_column_def)

lemma background_known:
  assumes k: "get_device_info svc (task_device_id task) = Some info"
    and g: "generate_quantum_random_number md5
        (simulate_quantum_processing
          (svc\<lparr>job_manager := update_job_status (job_manager svc) (task_job_id task) ''submitted''
                 [(''submitted_at'', Text (bg_submitted_at env)),
                  (''estimated_completion'',
                     Text (estimate_completion_time (bg_iso_after env) info))]\<rparr>)
          (task_job_id task))
        (bg_qrn env) (task_device_id task)
        (task_name task @ '':'' @ task_response task @ '':'' @ bg_seed_time env) = (Inr q, svc3)"
  shows "process_quantum_job_for_signature md5 svc env task =
     svc3\<lparr>job_manager := update_job_status (job_manager svc3) (task_job_id task) ''completed''
        [(''completed_at'', Text (bg_completed_at env)),
         (''result_data'', JsonText
            \<lparr>res_quantum_number = q,
             res_entanglement_data =
               create_bell_state_circuit svc3 (bg_bell env) (task_device_id task),
             res_device_name = dev_name info, res_device_type = dev_type info,
             res_processing_time_ms = None\<rparr>)]\<rparr>"
  using k g by (simp add: process_quantum_job_for_signature_def Let_def)

lemma unavailable_job_row:
  assumes k: "get_device_info svc dev = Some info"
    and nl: "dev \<noteq> ''local_simulator''"
    and nq: "\<not> py_in ''quera'' dev"
    and aws: "dev \<in> set (aws_devices svc)" "aws_session svc"
    and miss: "circuit_cache svc
        (md5 (dev @ ''_'' @ task_name task @ '':'' @ task_response task @ '':'' @ bg_seed_time env))
        = None"
    and down: "\<not> check_device_availability svc (choice (circuit_runs (bg_qrn env))) dev"
    and task: "task_device_id task = dev"
    and i: "i < length (rows (job_manager svc))"
      "job_id (rows (job_manager svc) ! i) = task_job_id task"
  shows "\<exists>res.
      status (rows (job_manager (process_quantum_job_for_signature md5 svc env task)) ! i)
        = ''completed''
      \<and> error_message (rows (job_manager (process_quantum_job_for_signature md5 svc env task)) ! i)
        = error_message (rows (job_manager svc) ! i)
      \<and> result_data (rows (job_manager (process_quantum_job_for_signature md5 svc env task)) ! i)
        = JsonText res
      \<and> res_quantum_number res =
          (if ''aws_sv1'' \<in> set (aws_devices svc)
           then (case aws_run (circuit_runs (bg_qrn env)) ''aws_sv1'' of
                   Inr n \<Rightarrow> n | Inl e \<Rightarrow> digest (bg_qrn env) mod 1000)
           else digest (bg_qrn env) mod 1000)"
proof -
  let ?jid = "task_job_id task"
  let ?db = "job_manager svc"
  let ?kw1 = "[(''submitted_at'', Text (bg_submitted_at env)),
       (''estimated_completion'', Text (estimate_completion_time (bg_iso_after env) info))]"
  let ?db2 = "update_job_status (update_job_status ?db ?jid ''submitted'' ?kw1) ?jid ''running'' []"
  let ?svc2 = "simulate_quantum_processing
      (svc\<lparr>job_manager := update_job_status ?db ?jid ''submitted'' ?kw1\<rparr>) ?jid"
  let ?seed = "task_name task @ '':'' @ task_response task @ '':'' @ bg_seed_time env"
  let ?q = "execute_on_device svc (circuit_runs (bg_qrn env)) (digest (bg_qrn env)) dev"
  have svc2: "?svc2 = svc\<lparr>job_manager := ?db2\<rparr>"
    by (simp add: simulate_quantum_processing_def)
  have k2: "get_device_info ?svc2 dev = Some info" using k by (simp add: svc2 get_device_info_def)
  have m2: "circuit_cache ?svc2 (md5 (dev @ ''_'' @ ?seed)) = None"
    using miss by (simp add: svc2)
  have q2: "execute_on_device ?svc2 (circuit_runs (bg_qrn env)) (digest (bg_qrn env)) dev = ?q"
    unfolding svc2 by (rule execute_job_manager)
  define svc3 where "svc3 = ?svc2\<lparr>circuit_cache :=
      (circuit_cache ?svc2)(md5 (dev @ ''_'' @ ?seed) \<mapsto> ?q)\<rparr>"
  have g: "generate_quantum_random_number md5 ?svc2 (bg_qrn env) (task_device_id task) ?seed
      = (Inr ?q, svc3)"
    unfolding task svc3_def
    using generate_miss [of ?svc2 dev info md5 ?seed "bg_qrn env", OF k2 nq m2]
    unfolding q2 .
  have jm3: "job_manager svc3 = ?db2" by (simp add: svc3_def svc2)
  define res where "res =
    \<lparr>res_quantum_number = ?q,
     res_entanglement_data = create_bell_state_circuit svc3 (bg_bell env) (task_device_id task),
     res_device_name = dev_name info, res_device_type = dev_type info,
     res_processing_time_ms = None\<rparr>"
  let ?kw3 = "[(''completed_at'', Text (bg_completed_at env)), (''result_data'', JsonText res)]"
  have p: "job_manager (process_quantum_job_for_signature md5 svc env task)
      = update_job_status ?db2 ?jid ''completed'' ?kw3"
    using background_known [OF k [folded task] g] by (simp add: jm3 res_def)
  have r1: "rows (update_job_status ?db ?jid ''submitted'' ?kw1) ! i
      = run_update ''submitted'' (set_clauses ?kw1) (rows ?db ! i)"
    using i by (rule row_update_job_status)
  have r2: "rows ?db2 ! i = run_update ''running'' (set_clauses [])
      (run_update ''submitted'' (set_clauses ?kw1) (rows ?db ! i))"
    using row_update_job_status [of i "update_job_status ?db ?jid ''submitted'' ?kw1" ?jid
        "''running''" "[]"] i
    by (simp add: length_update_job_status r1 job_id_run_update)
  have r3: "rows (update_job_status ?db2 ?jid ''completed'' ?kw3) ! i
      = run_update ''completed'' (set_clauses ?kw3)
          (run_update ''running'' (set_clauses [])
            (run_update ''submitted'' (set_clauses ?kw1) (rows ?db ! i)))"
    using row_update_job_status [of i ?db2 ?jid "''completed''" ?kw3] i
    by (simp add: length_update_job_status r2 job_id_run_update)
  have s: "status (rows (job_manager (process_quantum_job_for_signature md5 svc env task)) ! i)
      = ''completed''"
    unfolding p r3 by (rule status_run_update)
  have e: "error_message (rows (job_manager (process_quantum_job_for_signature md5 svc env task)) ! i)
      = error_message (rows ?db ! i)"
    unfolding p r3 by (simp add: error_message_unnamed)
  have d: "result_data (rows (job_manager (process_quantum_job_for_signature md5 svc env task)) ! i)
      = JsonText res"
    unfolding p r3 by (rule result_data_completed)
  have n: "res_quantum_number res =
      (if ''aws_sv1'' \<in> set (aws_devices svc)
       then (case aws_run (circuit_runs (bg_qrn env)) ''aws_sv1'' of
               Inr n \<Rightarrow> n | Inl e \<Rightarrow> digest (bg_qrn env) mod 1000)
       else digest (bg_qrn env) mod 1000)"
    using execute_unavailable [OF k nl aws down, of "digest (bg_qrn env)"] by (simp add: res_def)
  from s e d n show ?thesis by blast
qed

lemma ionq_service_facts:
  "get_device_info ionq_service ''ionq_forte'' = Some (snd (initial_devices ! 2))"
  "aws_devices ionq_service = [''ionq_forte'']"
  "aws_session ionq_service"
  "circuit_cache ionq_service = Map.empty"
  "job_manager ionq_service = frame_db"
  by (simp_all add: ionq_service_def init_service_def get_device_info_def initial_devices_def
      startswith_def only_ionq_def)

lemma fallback_service_facts:
  "get_device_info fallback_service ''ionq_forte'' = Some (snd (initial_devices ! 2))"
  "aws_devices fallback_service = [''aws_sv1'', ''ionq_forte'']"
  "aws_session fallback_service"
  "circuit_cache fallback_service = Map.empty"
  "job_manager fallback_service = frame_db"
  by (simp_all add: fallback_service_def init_service_def get_device_info_def initial_devices_def
      startswith_def sv1_and_ionq_def)

lemma ionq_down:
  "get_device_info svc ''ionq_forte'' = Some (snd (initial_devices ! 2)) \<Longrightarrow>
   \<not> check_device_availability svc never ''ionq_forte''"
  by (simp add: check_device_availability_def never_def initial_devices_def)

text \<open>
  The IonQ device is cached, the availability check answers no, and \<^verbatim>\<open>aws_sv1\<close> is not
  cached: the task marks the job completed, not failed, and writes no error message.
\<close>

theorem unavailable_without_fallback_counterexample:
  "\<not> check_device_availability ionq_service (choice (circuit_runs (bg_qrn down_env))) ''ionq_forte''
   \<and> ''aws_sv1'' \<notin> set (aws_devices ionq_service)
   \<and> job_id (rows (job_manager ionq_service) ! 1) = task_job_id ionq_task
   \<and> status (rows (job_manager
        (process_quantum_job_for_signature id_digest ionq_service down_env ionq_task)) ! 1)
      = ''completed''
   \<and> error_message (rows (job_manager
        (process_quantum_job_for_signature id_digest ionq_service down_env ionq_task)) ! 1)
      = Null"
proof -
  note f = ionq_service_facts
  have c: "choice (circuit_runs (bg_qrn down_env)) = never" by (simp add: down_env_def)
  have down: "\<not> check_device_availability ionq_service
      (choice (circuit_runs (bg_qrn down_env))) ''ionq_forte''"
    unfolding c using f(1) by (rule ionq_down)
  have nofb: "''aws_sv1'' \<notin> set (aws_devices ionq_service)" by (simp add: f(2))
  have nl: "''ionq_forte'' \<noteq> ''local_simulator''" by simp
  have nq: "\<not> py_in ''quera'' ''ionq_forte''" by simp
  have aws: "''ionq_forte'' \<in> set (aws_devices ionq_service)" by (simp add: f(2))
  have miss: "circuit_cache ionq_service (id_digest (''ionq_forte'' @ ''_'' @ task_name ionq_task
      @ '':'' @ task_response ionq_task @ '':'' @ bg_seed_time down_env)) = None"
    by (simp add: f(4))
  have t: "task_device_id ionq_task = ''ionq_forte''" by (simp add: ionq_task_def)
  have i: "1 < length (rows (job_manager ionq_service))"
    "job_id (rows (job_manager ionq_service) ! 1) = task_job_id ionq_task"
    by (simp_all add: f(5) frame_db_def running_row_def ionq_task_def)
  have e0: "error_message (rows (job_manager ionq_service) ! 1) = Null"
    by (simp add: f(5) frame_db_def running_row_def)
  from unavailable_job_row [of ionq_service "''ionq_forte''" "snd (initial_devices ! 2)"
      id_digest ionq_task down_env 1, OF f(1) nl nq aws f(3) miss down t i]
  have
    "status (rows (job_manager
        (process_quantum_job_for_signature id_digest ionq_service down_env ionq_task)) ! 1)
      = ''completed''"
    "error_message (rows (job_manager
        (process_quantum_job_for_signature id_digest ionq_service down_env ionq_task)) ! 1)
      = error_message (rows (job_manager ionq_service) ! 1)"
    by blast+
  with down nofb i(2) e0 show ?thesis by simp
qed

text \<open>
  Claim C2, as the code has it. The task runs for a registered device other than the
  local simulator and QuEra, cached in \<^verbatim>\<open>_aws_devices\<close> with a session, on a seed not yet
  cached, and the availability check answers no. The job is then marked completed in
  every case and its error message is not written. With \<^verbatim>\<open>aws_sv1\<close> cached the circuit
  runs there and the stored number is its result, or the circuit digest modulo 1000
  when that run raises; without \<^verbatim>\<open>aws_sv1\<close> the exception raised for the unavailable
  device is caught inside \<^verbatim>\<open>_execute_on_device\<close> and the stored number is the circuit
  digest modulo 1000.
\<close>

theorem unavailable_device_job_completes:
  assumes "get_device_info svc dev = Some info"
    and "dev \<noteq> ''local_simulator''"
    and "\<not> py_in ''quera'' dev"
    and "dev \<in> set (aws_devices svc)" and "aws_session svc"
    and "circuit_cache svc
        (md5 (dev @ ''_'' @ task_name task @ '':'' @ task_response task @ '':'' @ bg_seed_time env))
        = None"
    and "\<not> check_device_availability svc (choice (circuit_runs (bg_qrn env))) dev"
    and "task_device_id task = dev"
    and "i < length (rows (job_manager svc))"
    and "job_id (rows (job_manager svc) ! i) = task_job_id task"
  shows "\<exists>res.
      status (rows (job_manager (process_quantum_job_for_signature md5 svc env task)) ! i)
        = ''completed''
      \<and> error_message (rows (job_manager (process_quantum_job_for_signature md5 svc env task)) ! i)
        = error_message (rows (job_manager svc) ! i)
      \<and> result_data (rows (job_manager (process_quantum_job_for_signature md5 svc env task)) ! i)
        = JsonText res
      \<and> res_quantum_number res =
          (if ''aws_sv1'' \<in> set (aws_devices svc)
           then (case aws_run (circuit_runs (bg_qrn env)) ''aws_sv1'' of
                   Inr n \<Rightarrow> n | Inl e \<Rightarrow> digest (bg_qrn env) mod 1000)
           else digest (bg_qrn env) mod 1000)"
  using assms by (rule unavailable_job_row)

theorem unavailable_device_job_completes_witness:
  "get_device_info fallback_service ''ionq_forte'' = Some (snd (initial_devices ! 2))
   \<and> ''ionq_forte'' \<in> set (aws_devices fallback_service) \<and> aws_session fallback_service
   \<and> ''aws_sv1'' \<in> set (aws_devices fallback_service)
   \<and> \<not> check_device_availability fallback_service
        (choice (circuit_runs (bg_qrn fallback_env))) ''ionq_forte''
   \<and> job_id (rows (job_manager fallback_service) ! 1) = task_job_id ionq_task
   \<and> status (rows (job_manager
        (process_quantum_job_for_signature id_digest fallback_service fallback_env ionq_task)) ! 1)
      = ''completed''
   \<and> result_number (result_data (rows (job_manager
        (process_quantum_job_for_signature id_digest fallback_service fallback_env ionq_task)) ! 1))
      = Some 6"
proof -
  note f = fallback_service_facts
  have c: "choice (circuit_runs (bg_qrn fallback_env)) = never"
    "aws_run (circuit_runs (bg_qrn fallback_env)) ''aws_sv1'' = Inr 6"
    by (simp_all add: fallback_env_def sv1_answers_def)
  have down: "\<not> check_device_availability fallback_service
      (choice (circuit_runs (bg_qrn fallback_env))) ''ionq_forte''"
    unfolding c using f(1) by (rule ionq_down)
  have fb: "''aws_sv1'' \<in> set (aws_devices fallback_service)" by (simp add: f(2))
  have nl: "''ionq_forte'' \<noteq> ''local_simulator''" by simp
  have nq: "\<not> py_in ''quera'' ''ionq_forte''" by simp
  have aws: "''ionq_forte'' \<in> set (aws_devices fallback_service)" by (simp add: f(2))
  have miss: "circuit_cache fallback_service (id_digest (''ionq_forte'' @ ''_'' @ task_name ionq_task
      @ '':'' @ task_response ionq_task @ '':'' @ bg_seed_time fallback_env)) = None"
    by (simp add: f(4))
  have t: "task_device_id ionq_task = ''ionq_forte''" by (simp add: ionq_task_def)
  have i: "1 < length (rows (job_manager fallback_service))"
    "job_id (rows (job_manager fallback_service) ! 1) = task_job_id ionq_task"
    by (simp_all add: f(5) frame_db_def running_row_def ionq_task_def)
  from unavailable_device_job_completes [of fallback_service "''ionq_forte''"
      "snd (initial_devices ! 2)" id_digest ionq_task fallback_env 1,
      OF f(1) nl nq aws f(3) miss down t i]
  obtain res where
    s: "status (rows (job_manager
        (process_quantum_job_for_signature id_digest fallback_service fallback_env ionq_task)) ! 1)
      = ''completed''"
    and d: "result_data (rows (job_manager
        (process_quantum_job_for_signature id_digest fallback_service fallback_env ionq_task)) ! 1)
      = JsonText res"
    and n: "res_quantum_number res =
          (if ''aws_sv1'' \<in> set (aws_devices fallback_service)
           then (case aws_run (circuit_runs (bg_qrn fallback_env)) ''aws_sv1'' of
                   Inr n \<Rightarrow> n | Inl e \<Rightarrow> digest (bg_qrn fallback_env) mod 1000)
           else digest (bg_qrn fallback_env) mod 1000)"
    by blast
  have "res_quantum_number res = 6" using n fb by (simp add: c)
  then have "result_number (result_data (rows (job_manager
        (process_quantum_job_for_signature id_digest fallback_service fallback_env ionq_task)) ! 1))
      = Some 6"
    unfolding d by (simp add: result_number_def)
  with f(1) aws f(3) fb down i(2) s show ?thesis by (intro conjI)
qed

section \<open>Placement\<close>

lemma container_height_720: "container_height = 720"
  by (simp add: container_height_def)

lemma effective_width_cases:
  "effective_width_pct n =
     (if n \<le> 4 then 207 / 7 else if n \<le> 6 then 363 / 14 else if n \<le> 9 then 156 / 7
      else if n \<le> 12 then 1356 / 70 else 1152 / 70)"
  by (simp add: effective_width_pct_def card_dims_def container_width_def)

lemma effective_height_cases:
  "effective_height_pct n =
     (if n \<le> 4 then 209 / 6 else if n \<le> 6 then 32 else if n \<le> 9 then 111 / 4
      else if n \<le> 12 then 1495 / 60 else 265 / 12)"
  by (simp add: effective_height_pct_def card_dims_def container_height_720)

lemma spacing_cases:
  "spacing_pct n =
     (if n \<le> 4 then 15 / 7 else if n \<le> 6 then 25 / 14 else if n \<le> 9 then 10 / 7
      else if n \<le> 12 then 15 / 14 else 6 / 7)"
  by (simp add: spacing_pct_def card_dims_def container_width_def)

lemma effective_bounds:
  "0 < effective_width_pct n" "effective_width_pct n \<le> 76"
  "0 < effective_height_pct n" "effective_height_pct n \<le> 76"
  by (simp_all add: effective_width_cases effective_height_cases)

lemma clamp_in_band: "in_band n (clamp_position n p)"
  using effective_bounds [of n] by (auto simp: in_band_def clamp_position_def)

lemma spiral_in_band:
  "in_band n (generate_center_spiral_position c (effective_width_pct n) (effective_height_pct n))"
  using effective_bounds [of n]
  by (auto simp: in_band_def generate_center_spiral_position_def Let_def)

lemma search_accepts:
  "search n dev draws existing fuel attempt k = Some p \<Longrightarrow>
   in_band n p \<and> \<not> collision_found n p existing"
proof (induction fuel arbitrary: attempt k)
  case 0
  then show ?case by simp
next
  case (Suc fuel)
  obtain c k' where pr: "propose n dev draws k attempt = (c, k')"
    by (cases "propose n dev draws k attempt")
  show ?case
  proof (cases c)
    case None
    then show ?thesis using Suc.prems Suc.IH [of "Suc attempt" k'] by (simp add: pr)
  next
    case (Some q)
    show ?thesis
    proof (cases "collision_found n (clamp_position n q) existing")
      case True
      then show ?thesis using Suc.prems Suc.IH [of "Suc attempt" k'] by (simp add: pr Some)
    next
      case False
      then have "p = clamp_position n q" using Suc.prems by (simp add: pr Some)
      then show ?thesis using False clamp_in_band [of n q] by simp
    qed
  qed
qed

lemma search_all_skipped:
  "(\<And>a j. propose n dev draws j a = (None, j)) \<Longrightarrow>
   search n dev draws existing fuel attempt k = None"
  by (induction fuel arbitrary: attempt k) simp_all

lemma propose_local_large:
  "n \<le> 4 \<Longrightarrow> propose n ''local_simulator'' draws j a = (None, j)"
  by (simp add: propose_def zone_def device_region_def Let_def effective_width_cases
      effective_height_cases)

lemma local_large_is_spiral:
  "length existing < 4 \<Longrightarrow>
   generate_collision_free_position existing rng ''local_simulator'' number
     = generate_center_spiral_position (length existing)
         (effective_width_pct (length existing + 1)) (effective_height_pct (length existing + 1))"
proof -
  assume "length existing < 4"
  then have "length existing + 1 \<le> 4" by simp
  then have "search (length existing + 1) ''local_simulator'' (rng number) existing
      max_attempts 0 0 = None"
    by (intro search_all_skipped propose_local_large)
  then show ?thesis by (simp add: generate_collision_free_position_def Let_def)
qed

lemma first_position_value: "first_position = (58, 50)"
  unfolding first_position_def
  by (simp add: local_large_is_spiral generate_center_spiral_position_def Let_def
      effective_width_cases effective_height_cases)

lemma spiral_clamp_range:
  fixes c hi :: real
  assumes "- 1 \<le> c" and "c \<le> 1" and "79 / 2 \<le> hi"
  shows "79 / 2 \<le> max 12 (min hi (50 + 21 / 2 * c)) \<and> max 12 (min hi (50 + 21 / 2 * c)) \<le> hi"
  using assms by (auto simp: max_def min_def)

lemma second_position_range:
  "79 / 2 \<le> fst second_position \<and> fst second_position \<le> 409 / 7
   \<and> 79 / 2 \<le> snd second_position \<and> snd second_position \<le> 319 / 6"
proof -
  have "second_position = generate_center_spiral_position 1
      (effective_width_pct 2) (effective_height_pct 2)"
    unfolding second_position_def using local_large_is_spiral [of "[first_position]"]
    by (simp add: numeral_2_eq_2)
  then have e: "second_position =
      (max 12 (min (409 / 7) (50 + 21 / 2 * cos (4 / 5))),
       max 12 (min (319 / 6) (50 + 21 / 2 * sin (4 / 5))))"
    by (simp add: generate_center_spiral_position_def Let_def effective_width_cases
        effective_height_cases)
  have v: "fst second_position = max 12 (min (409 / 7) (50 + 21 / 2 * cos (4 / 5)))"
    "snd second_position = max 12 (min (319 / 6) (50 + 21 / 2 * sin (4 / 5)))"
    unfolding e by (rule fst_conv, rule snd_conv)
  have x: "79 / 2 \<le> fst second_position \<and> fst second_position \<le> 409 / 7"
    unfolding v(1) by (rule spiral_clamp_range) simp_all
  have y: "79 / 2 \<le> snd second_position \<and> snd second_position \<le> 319 / 6"
    unfolding v(2) by (rule spiral_clamp_range) simp_all
  from x y show ?thesis by simp
qed

text \<open>
  Two entries placed one after the other for the local simulator: no candidate of the
  loop is ever proposed, both positions come from the spiral, and the second overlaps
  the first, with and without the spacing.
\<close>

theorem sequential_overlap_counterexample:
  "first_position = (58, 50)
   \<and> collision_found 2 second_position [first_position]
   \<and> \<bar>fst second_position - fst first_position\<bar> < effective_width_pct 2
   \<and> \<bar>snd second_position - snd first_position\<bar> < effective_height_pct 2"
proof -
  note r = second_position_range
  have a: "\<bar>fst second_position - 58\<bar> < 207 / 7" using r by (simp add: abs_if)
  have b: "\<bar>snd second_position - 50\<bar> < 209 / 6" using r by (simp add: abs_if)
  have c: "collision_found 2 second_position [first_position]"
    using a b by (simp add: collision_found_def first_position_value effective_width_cases
        effective_height_cases spacing_cases)
  show ?thesis using a b c
    by (simp add: first_position_value effective_width_cases effective_height_cases)
qed

text \<open>
  Claim C5, as the code has it. Every returned position, from the loop or from the
  spiral, lies in the safe band: each coordinate is at least 12 and at most 88 minus the
  effective footprint, so below 88. A position the loop returns does not collide, by the
  loop's own test (effective footprint plus spacing), with any existing signature. When
  the loop ends without a return the spiral position is returned as it is, unchecked.
\<close>

theorem placement_in_band_and_checked:
  "in_band (length existing + 1) (generate_collision_free_position existing rng dev number)
   \<and> (search (length existing + 1) dev (rng number) existing max_attempts 0 0 \<noteq> None \<longrightarrow>
        \<not> collision_found (length existing + 1)
            (generate_collision_free_position existing rng dev number) existing)
   \<and> (search (length existing + 1) dev (rng number) existing max_attempts 0 0 = None \<longrightarrow>
        generate_collision_free_position existing rng dev number
          = generate_center_spiral_position (length existing)
              (effective_width_pct (length existing + 1))
              (effective_height_pct (length existing + 1)))"
proof (cases "search (length existing + 1) dev (rng number) existing max_attempts 0 0")
  case None
  then show ?thesis
    using spiral_in_band [of "length existing + 1" "length existing"]
    by (simp add: generate_collision_free_position_def Let_def)
next
  case (Some p)
  then show ?thesis using search_accepts [OF Some]
    by (simp add: generate_collision_free_position_def Let_def)
qed

lemma quera_first_attempt:
  "search 2 ''quera_aquila'' (half_rng 5) one_entry max_attempts 0 0 = Some (30, 30)"
proof -
  have p: "propose 2 ''quera_aquila'' (half_rng 5) 0 0 = (Some (30, 30), 2)"
    by (simp add: propose_def zone_def device_region_def Let_def effective_width_cases
        effective_height_cases uniform_def half_rng_def)
  have c: "clamp_position 2 (30, 30) = (30, 30)"
    by (simp add: clamp_position_def effective_width_cases effective_height_cases)
  have n: "\<not> collision_found 2 (30, 30) one_entry"
    by (simp add: collision_found_def one_entry_def effective_width_cases
        effective_height_cases spacing_cases)
  have "search 2 ''quera_aquila'' (half_rng 5) one_entry (Suc 149) 0 0 = Some (30, 30)"
    unfolding search.simps p using n by (simp add: c)
  then show ?thesis by (simp add: max_attempts_def)
qed

theorem placement_in_band_and_checked_witness:
  "search (length one_entry + 1) ''quera_aquila'' (half_rng 5) one_entry max_attempts 0 0 \<noteq> None
   \<and> generate_collision_free_position one_entry half_rng ''quera_aquila'' 5 = (30, 30)
   \<and> \<not> collision_found (length one_entry + 1)
        (generate_collision_free_position one_entry half_rng ''quera_aquila'' 5) one_entry
   \<and> in_band (length one_entry + 1)
        (generate_collision_free_position one_entry half_rng ''quera_aquila'' 5)"
proof -
  have l: "length one_entry + 1 = 2" by (simp add: one_entry_def)
  have s: "search (length one_entry + 1) ''quera_aquila'' (half_rng 5) one_entry max_attempts 0 0
      = Some (30, 30)"
    unfolding l by (rule quera_first_attempt)
  then have a: "search (length one_entry + 1) ''quera_aquila'' (half_rng 5) one_entry
      max_attempts 0 0 \<noteq> None" by simp
  have g: "generate_collision_free_position one_entry half_rng ''quera_aquila'' 5 = (30, 30)"
    using s by (simp add: generate_collision_free_position_def Let_def)
  note t = placement_in_band_and_checked [of one_entry half_rng "''quera_aquila''" 5]
  from t a have b: "\<not> collision_found (length one_entry + 1)
        (generate_collision_free_position one_entry half_rng ''quera_aquila'' 5) one_entry"
    by blast
  from t have c: "in_band (length one_entry + 1)
        (generate_collision_free_position one_entry half_rng ''quera_aquila'' 5)"
    by blast
  from a g b c show ?thesis by (intro conjI)
qed

section \<open>Visual properties\<close>

lemma visuals_known:
  assumes "4 \<le> length data" and "get_device_info svc dev = Some info"
  shows "generate_device_specific_visuals svc existing rng dev number data =
     Inr [(''color'', PHsl (device_hue dev number) (70 + sum_list data * 30) (45 + (data ! 0) * 20)),
          (''position_x'', PReal (fst (generate_collision_free_position existing rng dev number))),
          (''position_y'', PReal (snd (generate_collision_free_position existing rng dev number))),
          (''pulse_speed'', PInt (2 + number mod 3)),
          (''size_factor'', PReal (0.8 + (data ! 3) * 0.4)),
          (''device_indicator'', PStr (dev_type info))]"
proof -
  have a: "\<not> length data < 1" "\<not> length data < 4" using assms(1) by auto
  show ?thesis
    unfolding generate_device_specific_visuals_def Let_def if_not_P [OF a(1)] if_not_P [OF a(2)]
      assms(2) option.case ..
qed

lemma visuals_short:
  assumes "length data < 4"
  shows "generate_device_specific_visuals svc existing rng dev number data = Inl IndexError"
proof (cases "length data < 1")
  case True
  show ?thesis unfolding generate_device_specific_visuals_def Let_def if_P [OF True] ..
next
  case False
  show ?thesis
    unfolding generate_device_specific_visuals_def Let_def if_not_P [OF False] if_P [OF assms] ..
qed

lemma visuals_unknown:
  assumes "4 \<le> length data" and "get_device_info svc dev = None"
  shows "generate_device_specific_visuals svc existing rng dev number data = Inl (KeyError ''type'')"
proof -
  have a: "\<not> length data < 1" "\<not> length data < 4" using assms(1) by auto
  show ?thesis
    unfolding generate_device_specific_visuals_def Let_def if_not_P [OF a(1)] if_not_P [OF a(2)]
      assms(2) option.case ..
qed

text \<open>
  With a vector of four numbers and a device id the catalogue does not have, the call
  raises \<^verbatim>\<open>KeyError\<close> on \<^verbatim>\<open>device_info['type']\<close>.
\<close>

theorem visuals_unknown_device_counterexample:
  "4 \<le> length [1 / 2, 0, 0, 1 / 2 :: real]
   \<and> generate_visual_properties offline_service [] half_rng 5 [1 / 2, 0, 0, 1 / 2]
        ''no_such_device'' = Inl (KeyError ''type'')"
proof -
  have l: "4 \<le> length [1 / 2, 0, 0, 1 / 2 :: real]" by simp
  have n: "get_device_info offline_service ''no_such_device'' = None"
    by (simp add: get_device_info_def offline_service_def init_service_def initial_devices_def)
  have "generate_visual_properties offline_service [] half_rng 5 [1 / 2, 0, 0, 1 / 2]
        ''no_such_device'' = Inl (KeyError ''type'')"
    unfolding generate_visual_properties_def using l n by (rule visuals_unknown)
  with l show ?thesis by (intro conjI)
qed

text \<open>
  Claim C10, as the code has it. For a vector of length at least 4 and a device id of
  the catalogue the call returns a dictionary with exactly the keys \<^verbatim>\<open>color\<close>,
  \<^verbatim>\<open>position_x\<close>, \<^verbatim>\<open>position_y\<close>, \<^verbatim>\<open>pulse_speed\<close>, \<^verbatim>\<open>size_factor\<close> and \<^verbatim>\<open>device_indicator\<close>,
  in this order. For a vector shorter than 4 the access to element 0 or 3 is out of
  bounds and the call raises \<^verbatim>\<open>IndexError\<close>. For a vector of length at least 4 and a
  device id outside the catalogue the call raises \<^verbatim>\<open>KeyError\<close>.
\<close>

theorem visual_properties_total_on_known_device:
  "(4 \<le> length data \<and> get_device_info svc dev = Some info \<longrightarrow>
      (\<exists>ps. generate_visual_properties svc existing rng number data dev = Inr ps
         \<and> map fst ps = [''color'', ''position_x'', ''position_y'', ''pulse_speed'',
              ''size_factor'', ''device_indicator'']))
   \<and> (length data < 4 \<longrightarrow>
      generate_visual_properties svc existing rng number data dev = Inl IndexError)
   \<and> (4 \<le> length data \<and> get_device_info svc dev = None \<longrightarrow>
      generate_visual_properties svc existing rng number data dev = Inl (KeyError ''type''))"
proof (intro conjI impI)
  assume h: "4 \<le> length data \<and> get_device_info svc dev = Some info"
  then have "generate_visual_properties svc existing rng number data dev =
     Inr [(''color'', PHsl (device_hue dev number) (70 + sum_list data * 30) (45 + (data ! 0) * 20)),
          (''position_x'', PReal (fst (generate_collision_free_position existing rng dev number))),
          (''position_y'', PReal (snd (generate_collision_free_position existing rng dev number))),
          (''pulse_speed'', PInt (2 + number mod 3)),
          (''size_factor'', PReal (0.8 + (data ! 3) * 0.4)),
          (''device_indicator'', PStr (dev_type info))]"
    unfolding generate_visual_properties_def by (intro visuals_known) simp_all
  then show "\<exists>ps. generate_visual_properties svc existing rng number data dev = Inr ps
         \<and> map fst ps = [''color'', ''position_x'', ''position_y'', ''pulse_speed'',
              ''size_factor'', ''device_indicator'']"
    by simp
next
  assume "length data < 4"
  then show "generate_visual_properties svc existing rng number data dev = Inl IndexError"
    unfolding generate_visual_properties_def by (rule visuals_short)
next
  assume "4 \<le> length data \<and> get_device_info svc dev = None"
  then show "generate_visual_properties svc existing rng number data dev = Inl (KeyError ''type'')"
    unfolding generate_visual_properties_def by (intro visuals_unknown) simp_all
qed

theorem visual_properties_total_on_known_device_witness:
  "4 \<le> length [1 / 2, 0, 0, 1 / 2 :: real]
   \<and> get_device_info offline_service ''aws_sv1'' = Some (snd (initial_devices ! 1))
   \<and> keys_of (generate_visual_properties offline_service [] half_rng 5 [1 / 2, 0, 0, 1 / 2]
        ''aws_sv1'')
      = Some [''color'', ''position_x'', ''position_y'', ''pulse_speed'', ''size_factor'',
          ''device_indicator'']
   \<and> length [1 / 2, 0, 1 / 2 :: real] < 4
   \<and> generate_visual_properties offline_service [] half_rng 5 [1 / 2, 0, 1 / 2] ''aws_sv1''
      = Inl IndexError"
proof -
  have l: "4 \<le> length [1 / 2, 0, 0, 1 / 2 :: real]" by simp
  have k: "get_device_info offline_service ''aws_sv1'' = Some (snd (initial_devices ! 1))"
    by (simp add: get_device_info_def offline_service_def init_service_def initial_devices_def)
  have s: "length [1 / 2, 0, 1 / 2 :: real] < 4" by simp
  note t = visual_properties_total_on_known_device
    [of "[1 / 2, 0, 0, 1 / 2]" offline_service "''aws_sv1''" "snd (initial_devices ! 1)" "[]"
      half_rng 5]
  note u = visual_properties_total_on_known_device
    [of "[1 / 2, 0, 1 / 2]" offline_service "''aws_sv1''" "snd (initial_devices ! 1)" "[]"
      half_rng 5]
  note t1 = mp [OF conjunct1 [OF t] conjI [OF l k]]
  note u1 = mp [OF conjunct1 [OF conjunct2 [OF u]] s]
  from t1 obtain ps where
    p: "generate_visual_properties offline_service [] half_rng 5 [1 / 2, 0, 0, 1 / 2] ''aws_sv1''
        = Inr ps"
    and m: "map fst ps = [''color'', ''position_x'', ''position_y'', ''pulse_speed'',
        ''size_factor'', ''device_indicator'']"
    by (elim exE conjE)
  have a: "keys_of (generate_visual_properties offline_service [] half_rng 5 [1 / 2, 0, 0, 1 / 2]
        ''aws_sv1'')
      = Some [''color'', ''position_x'', ''position_y'', ''pulse_speed'', ''size_factor'',
          ''device_indicator'']"
    unfolding p keys_of_def sum.case m ..
  from l k a s u1 show ?thesis by (intro conjI)
qed

end
